theory Spec2Isabelle
  imports Complex_Main
begin

section \<open>DLEAPP: the dispatch loop and the profile loader of dleapp.py\<close>

text \<open>
  A shallow embedding of \<^verbatim>\<open>src/dleapp.py\<close>: \<^verbatim>\<open>crunch_artifacts\<close> (the dispatch pass),
  \<^verbatim>\<open>validate_args\<close> and \<^verbatim>\<open>main\<close> (argument checks, profile loading, plugin selection).
  Everything the script calls but does not define (the seekers, the plugins' parse
  methods, \<^verbatim>\<open>os.mkdir\<close>, \<^verbatim>\<open>json.load\<close>, the clock, the report generator) is a parameter:
  a field of the environment record, of the host record or of the plugin record. Everything the script
  changes (the run log written by \<^verbatim>\<open>logfunc\<close>, the audit file ProcessedFilesLog.html,
  the directories that exist, the parse methods called, the progress bar, the report
  generator's calls) is a field of an explicit state record.
\<close>

subsection \<open>Exceptions\<close>

text \<open>
  The classes of Python exceptions the script can meet. The last three derive from
  \<^verbatim>\<open>BaseException\<close> and not from \<^verbatim>\<open>Exception\<close>: \<^verbatim>\<open>except Exception\<close> does not handle
  them. An exception carries its class, \<^verbatim>\<open>str(ex)\<close> and the text
  \<^verbatim>\<open>traceback.format_exc()\<close> gives for it.
\<close>

datatype exc_class =
    FileExistsError | FileNotFoundError | PermissionError | NotADirectoryError | OSError
  | TypeError | IndexError | ValueError | KeyError | UnicodeDecodeError | RuntimeError
  | Exception
  | SystemExit | KeyboardInterrupt | GeneratorExit

text \<open>\<^verbatim>\<open>isinstance(ex, Exception)\<close>, by the class.\<close>

fun is_Exception :: "exc_class \<Rightarrow> bool" where
  "is_Exception SystemExit = False"
| "is_Exception KeyboardInterrupt = False"
| "is_Exception GeneratorExit = False"
| "is_Exception c = True"

datatype exc = Exc (cls: exc_class) (str_of: string) (format_exc: string)

datatype 'a result = Returned 'a | Raised exc

subsection \<open>Strings\<close>

definition bslash :: char where
  "bslash = CHR 0x5C"

text \<open>The Python literal \<^verbatim>\<open>'\\\\?\\'\<close>: backslash, backslash, question mark, backslash.\<close>

definition long_prefix :: string where
  "long_prefix = [bslash, bslash, CHR ''?'', bslash]"

definition startswith :: "string \<Rightarrow> string \<Rightarrow> bool" where
  "startswith s p = (take (length p) s = p)"

text \<open>\<^verbatim>\<open>if pathh.startswith('\\\\?\\'): pathh = pathh[4:]\<close>\<close>

definition strip_long_prefix :: "string \<Rightarrow> string" where
  "strip_long_prefix s = (if startswith s long_prefix then drop 4 s else s)"

definition digit_char :: "nat \<Rightarrow> char" where
  "digit_char d = ''0123456789'' ! d"

text \<open>\<^verbatim>\<open>str(n)\<close> of a non-negative integer, as an f-string prints \<^verbatim>\<open>len(found)\<close>.\<close>

function str_nat :: "nat \<Rightarrow> string" where
  "str_nat n = (if n < 10 then [digit_char n] else str_nat (n div 10) @ [digit_char (n mod 10)])"
  by pat_completeness auto
termination
  by (relation "measure (\<lambda>n. n)") auto

declare str_nat.simps [simp del]

subsection \<open>Plugins, the seeker and the environment\<close>

text \<open>\<^verbatim>\<open>seeker.search(regex)\<close>: the list of paths found, empty when nothing matches.\<close>

type_synonym seeker = "string \<Rightarrow> string list"

datatype method_result = Returns | Raises exc

text \<open>\<^verbatim>\<open>plugin.search\<close> is one pattern, a tuple of patterns or a list of patterns.\<close>

datatype search_spec = SearchStr string | SearchTuple "string list" | SearchList "string list"

text \<open>
  \<^verbatim>\<open>plugin_loader.PluginSpec\<close>. The parse method is called as
  \<^verbatim>\<open>plugin.method(files_found, category_folder, seeker, wrap_text)\<close>.
\<close>

record plugin =
  name :: string
  module_name_str :: string
  category :: string
  search :: search_spec
  method_fn :: "string list \<Rightarrow> string \<Rightarrow> seeker \<Rightarrow> bool \<Rightarrow> method_result"

record out_params =
  report_folder_base :: string
  temp_folder :: string

record report_call =
  r_report_folder_base :: string
  r_run_time_secs :: rat
  r_run_time_HMS :: string
  r_extracttype :: string
  r_input_path :: string
  r_casedata :: "(string \<times> string) list"

datatype file_state = NotOpened | Opened | Closed

text \<open>One call of a parse method: the plugin's name and the four arguments but the seeker.\<close>

record invocation =
  i_name :: string
  i_files_found :: "string list"
  i_category_folder :: string
  i_wrap_text :: bool

text \<open>
  What the script does not define. A seeker's constructor raises or gives the search
  function; \<^verbatim>\<open>os.mkdir(path)\<close> raises the fault given for the path, if any, and creates
  the directory otherwise; \<^verbatim>\<open>open(path, 'w+')\<close> raises the fault given for the path, if
  any; \<^verbatim>\<open>report.generate_report\<close> raises its fault, if any. A seeker's search gives a
  list for every pattern, as its contract says; the writes to the run log, to the opened
  audit file and to the progress bar are taken not to fail.
\<close>

record env =
  is_platform_windows :: bool
  path_join :: "string \<Rightarrow> string \<Rightarrow> string"
  FileSeekerDir :: "string \<Rightarrow> exc + seeker"
  FileSeekerTar :: "string \<Rightarrow> string \<Rightarrow> exc + seeker"
  FileSeekerZip :: "string \<Rightarrow> string \<Rightarrow> exc + seeker"
  mkdir_fault :: "string \<Rightarrow> exc option"
  open_fault :: "string \<Rightarrow> exc option"
  generate_report_fault :: "exc option"
  dleapp_version :: string
  devinfo :: "string list"
  run_time_secs :: rat
  run_time_HMS :: string

text \<open>What the script changes.\<close>

record world =
  run_log :: "string list"
  log_file :: file_state
  audit :: "string list"
  existing :: "string list"
  invoked :: "invocation list"
  progress :: "nat list"
  reports :: "report_call list"

definition logfunc :: "string \<Rightarrow> world \<Rightarrow> world" where
  "logfunc message w = w\<lparr>run_log := run_log w @ [message]\<rparr>"

definition log_write :: "string \<Rightarrow> world \<Rightarrow> world" where
  "log_write s w = w\<lparr>audit := audit w @ [s]\<rparr>"

definition os_path_exists :: "world \<Rightarrow> string \<Rightarrow> bool" where
  "os_path_exists w p = (p \<in> set (existing w))"

definition SetProgressBar :: "nat \<Rightarrow> world \<Rightarrow> world" where
  "SetProgressBar n w = w\<lparr>progress := progress w @ [n]\<rparr>"

subsection \<open>The search of one plugin (lines 260 to 277)\<close>

definition search_regexes :: "plugin \<Rightarrow> string list" where
  "search_regexes p =
     (case search p of
        SearchList rs \<Rightarrow> rs
      | SearchTuple rs \<Rightarrow> rs
      | SearchStr r \<Rightarrow> [r])"

text \<open>The inner loop \<^verbatim>\<open>for pathh in found\<close>.\<close>

fun write_paths :: "string list \<Rightarrow> world \<Rightarrow> world" where
  "write_paths [] w = w"
| "write_paths (pathh # rest) w =
     write_paths rest (log_write (''<ul><li>'' @ strip_long_prefix pathh @ ''</li></ul>'') w)"

text \<open>
  The loop \<^verbatim>\<open>for artifact_search_regex in search_regexes\<close>, with \<^verbatim>\<open>files_found\<close> as
  the accumulator that \<^verbatim>\<open>files_found.extend(found)\<close> grows.
\<close>

fun search_loop :: "seeker \<Rightarrow> string list \<Rightarrow> string list \<Rightarrow> world \<Rightarrow> string list \<times> world" where
  "search_loop sk [] files_found w = (files_found, w)"
| "search_loop sk (artifact_search_regex # rest) files_found w =
     (let found = sk artifact_search_regex in
      if found = [] then
        search_loop sk rest files_found
          (log_write (''<ul><li>No file found for regex <i>'' @ artifact_search_regex
                      @ ''</i></li></ul>'') w)
      else
        let w1 = log_write (''<ul><li>'' @ str_nat (length found) @ '' ''
                            @ (if length found > 1 then ''files'' else ''file'')
                            @ '' for regex <i>'' @ artifact_search_regex
                            @ ''</i> located at:'') w;
            w2 = write_paths found w1;
            w3 = log_write ''</li></ul>'' w2
        in search_loop sk rest (files_found @ found) w3)"

subsection \<open>One iteration of the plugin loop (lines 259 to 300)\<close>

text \<open>
  How an iteration ends: it falls through to the progress update, it leaves by one of
  the two \<^verbatim>\<open>continue\<close> statements, or an exception no handler of the loop catches
  leaves the loop and the function.
\<close>

datatype flow = FallThrough | Continue | Propagate exc

text \<open>
  Lines 282 to 288: \<^verbatim>\<open>os.mkdir\<close> under \<^verbatim>\<open>except (FileExistsError, FileNotFoundError)\<close>.
  \<open>None\<close>: the folder is there and the iteration goes on.
\<close>

definition make_category_folder :: "env \<Rightarrow> plugin \<Rightarrow> string \<Rightarrow> world \<Rightarrow> flow option \<times> world" where
  "make_category_folder e p category_folder w =
     (if \<not> os_path_exists w category_folder then
        (case mkdir_fault e category_folder of
           None \<Rightarrow> (None, w\<lparr>existing := existing w @ [category_folder]\<rparr>)
         | Some ex \<Rightarrow>
             if cls ex = FileExistsError \<or> cls ex = FileNotFoundError then
               (Some Continue,
                logfunc (''Error was '' @ str_of ex)
                  (logfunc (''Error creating '' @ name p @ '' report directory at path ''
                            @ category_folder) w))
             else (Some (Propagate ex), w))
      else (None, w))"

text \<open>
  Lines 289 to 297: the call of the parse method under \<^verbatim>\<open>except Exception\<close>. What
  the method raises is handled when it is an \<^verbatim>\<open>Exception\<close>, and leaves the loop
  otherwise.
\<close>

definition call_method :: "plugin \<Rightarrow> string list \<Rightarrow> string \<Rightarrow> seeker \<Rightarrow> bool \<Rightarrow> world \<Rightarrow> flow \<times> world" where
  "call_method p files_found category_folder sk wrap w =
     (let w1 = w\<lparr>invoked := invoked w @
                 [\<lparr>i_name = name p, i_files_found = files_found,
                   i_category_folder = category_folder, i_wrap_text = wrap\<rparr>]\<rparr>
      in case method_fn p files_found category_folder sk wrap of
           Raises ex \<Rightarrow>
             if is_Exception (cls ex) then
               (Continue,
                logfunc (''Exception Traceback: '' @ format_exc ex)
                  (logfunc (''Error was '' @ str_of ex)
                     (logfunc (''Reading '' @ name p @ '' artifact had errors!'') w1)))
             else (Propagate ex, w1)
         | Returns \<Rightarrow>
             (FallThrough,
              logfunc (name p @ '' ['' @ module_name_str p @ ''] artifact completed'') w1))"

definition run_plugin :: "env \<Rightarrow> seeker \<Rightarrow> out_params \<Rightarrow> bool \<Rightarrow> plugin \<Rightarrow> world \<Rightarrow> flow \<times> world" where
  "run_plugin e sk out wrap p w =
     (let w1 = log_write (''<b>For '' @ name p @ '' parser</b>'') w;
          (files_found, w2) = search_loop sk (search_regexes p) [] w1
      in if files_found \<noteq> [] then
           let w3 = logfunc [] w2;
               w4 = logfunc (name p @ '' ['' @ module_name_str p @ ''] artifact started'') w3;
               category_folder = path_join e (report_folder_base out) (category p)
           in (case make_category_folder e p category_folder w4 of
                 (Some fl, w5) \<Rightarrow> (fl, w5)
               | (None, w5) \<Rightarrow> call_method p files_found category_folder sk wrap w5)
         else (FallThrough, w2))"

text \<open>
  The loop \<^verbatim>\<open>for plugin in plugins\<close> with its counter \<^verbatim>\<open>categories_searched\<close>. The
  result is the exception that left the loop, if any, the counter and the state.
\<close>

fun plugin_loop ::
  "env \<Rightarrow> seeker \<Rightarrow> out_params \<Rightarrow> nat \<Rightarrow> bool \<Rightarrow> plugin list \<Rightarrow> nat \<Rightarrow> world
     \<Rightarrow> exc option \<times> nat \<times> world" where
  "plugin_loop e sk out ratio wrap [] categories_searched w = (None, categories_searched, w)"
| "plugin_loop e sk out ratio wrap (p # ps) categories_searched w =
     (case run_plugin e sk out wrap p w of
        (Propagate ex, w') \<Rightarrow> (Some ex, categories_searched, w')
      | (Continue, w') \<Rightarrow> plugin_loop e sk out ratio wrap ps categories_searched w'
      | (FallThrough, w') \<Rightarrow>
          plugin_loop e sk out ratio wrap ps (categories_searched + 1)
            (SetProgressBar ((categories_searched + 1) * ratio) w'))"

subsection \<open>The dispatch pass: \<^verbatim>\<open>crunch_artifacts\<close> (lines 210 to 322)\<close>

text \<open>Consecutive calls of \<^verbatim>\<open>logfunc\<close>, in the order written.\<close>

definition logfuncs :: "string list \<Rightarrow> world \<Rightarrow> world" where
  "logfuncs messages w = foldl (\<lambda>v m. logfunc m v) w messages"

text \<open>\<^verbatim>\<open>if profile_filename:\<close> is false for \<^verbatim>\<open>None\<close> and for the empty string.\<close>

definition truthy :: "string option \<Rightarrow> bool" where
  "truthy s = (case s of None \<Rightarrow> False | Some v \<Rightarrow> v \<noteq> [])"

text \<open>
  Lines 224 to 244. \<open>None\<close>: the \<^verbatim>\<open>else\<close> branch, no seeker for this input type.
  \<open>Some (Inl ex)\<close>: the constructor raised.
\<close>

definition construct_seeker :: "env \<Rightarrow> string \<Rightarrow> string \<Rightarrow> out_params \<Rightarrow> (exc + seeker) option" where
  "construct_seeker e extracttype in_path out =
     (if extracttype = ''fs'' then Some (FileSeekerDir e in_path)
      else if extracttype = ''tar'' \<or> extracttype = ''gz'' then
        Some (FileSeekerTar e in_path (temp_folder out))
      else if extracttype = ''zip'' then Some (FileSeekerZip e in_path (temp_folder out))
      else None)"

text \<open>
  Lines 301 to 322, after the loop. The result is the exception that
  \<^verbatim>\<open>report.generate_report\<close> raised, if any, and the state.
\<close>

definition finalize ::
  "env \<Rightarrow> string \<Rightarrow> string \<Rightarrow> out_params \<Rightarrow> (string \<times> string) list \<Rightarrow> world
     \<Rightarrow> exc option \<times> world" where
  "finalize e extracttype in_path out casedata w =
     (let w1 = w\<lparr>log_file := Closed\<rparr>;
          w2 = logfuncs [[], ''Processes completed.'',
                         ''Processing time = '' @ run_time_HMS e,
                         [], ''Report generation started.''] w1;
          base = (if is_platform_windows e then strip_long_prefix (report_folder_base out)
                  else report_folder_base out);
          in_path' = (if is_platform_windows e then strip_long_prefix in_path else in_path);
          w3 = w2\<lparr>reports := reports w2 @
                 [\<lparr>r_report_folder_base = base, r_run_time_secs = run_time_secs e,
                   r_run_time_HMS = run_time_HMS e, r_extracttype = extracttype,
                   r_input_path = in_path', r_casedata = casedata\<rparr>]\<rparr>
      in case generate_report_fault e of
           Some ex \<Rightarrow> (Some ex, w3)
         | None \<Rightarrow>
             (None,
              logfuncs [''Report generation Completed.'', [], ''Report location: '' @ base] w3))"

definition banner :: "env \<Rightarrow> string list" where
  "banner e =
     [''Processing started. Please wait. This may take a few minutes...'',
      [CHR 0x0A] @ ''--------------------------------------------------------------------------------------'',
      ''DLEAPP v'' @ dleapp_version e @ '': Drones Logs, Events, and Properties Parser'',
      ''Objective: Triage Drone Extractions.'',
      ''By: Alexis Brignoni | @AlexisBrignoni | abrignoni.com'',
      ''By: Yogesh Khatri   | @SwiftForensics | swiftforensics.com'' @ [CHR 0x0A]]
     @ devinfo e"

text \<open>
  The path of the audit file, line 253: \<^verbatim>\<open>os.path.join\<close> of three components joins
  them from the left.
\<close>

definition audit_log_path :: "env \<Rightarrow> out_params \<Rightarrow> string" where
  "audit_log_path e out =
     path_join e (path_join e (report_folder_base out) ''Script Logs'') ''ProcessedFilesLog.html''"

text \<open>
  Lines 246 to 255: the run log's summary, then the audit file opened and headed.
  \<^verbatim>\<open>open(..., 'w+')\<close> is in no \<^verbatim>\<open>try\<close>: what it raises leaves the function. When it
  succeeds it truncates the file. The result is the exception raised, if any, and the
  state.
\<close>

definition ready_to_run ::
  "env \<Rightarrow> out_params \<Rightarrow> plugin list \<Rightarrow> string \<Rightarrow> string option \<Rightarrow> world
     \<Rightarrow> exc option \<times> world" where
  "ready_to_run e out plugins in_path profile_filename w0 =
     (let w1 = (case profile_filename of
                  Some f \<Rightarrow> if f \<noteq> [] then logfunc (''Loaded profile: '' @ f) w0 else w0
                | None \<Rightarrow> w0);
          w2 = logfuncs [''Artifact categories to parse: '' @ str_nat (length plugins),
                         ''File/Directory selected: '' @ in_path,
                         [CHR 0x0A] @ ''--------------------------------------------------------------------------------------''] w1
      in case open_fault e (audit_log_path e out) of
           Some ex \<Rightarrow> (Some ex, w2)
         | None \<Rightarrow>
             (None,
              log_write (''Extraction/Path selected: '' @ in_path @ ''<br><br>'')
                (w2\<lparr>log_file := Opened, audit := []\<rparr>)))"

text \<open>
  The result is what the call returns or the exception that leaves it, with the state
  at that moment. The handler of line 238 is \<^verbatim>\<open>except Exception\<close>.
\<close>

definition crunch_artifacts ::
  "env \<Rightarrow> plugin list \<Rightarrow> string \<Rightarrow> string \<Rightarrow> out_params \<Rightarrow> nat \<Rightarrow> bool
     \<Rightarrow> (string \<times> string) list \<Rightarrow> string option \<Rightarrow> world \<Rightarrow> bool result \<times> world" where
  "crunch_artifacts e plugins extracttype in_path out ratio wrap casedata profile_filename w =
     (let w0 = logfuncs (banner e) w in
      case construct_seeker e extracttype in_path out of
        None \<Rightarrow> (Returned False, logfunc ''Error on argument -o (input type)'' w0)
      | Some (Inl ex) \<Rightarrow>
          if is_Exception (cls ex) then
            (Returned False,
             logfuncs [''Had an exception in Seeker - see details below. Terminating Program!'',
                       format_exc ex] w0)
          else (Raised ex, w0)
      | Some (Inr sk) \<Rightarrow>
          (case ready_to_run e out plugins in_path profile_filename w0 of
             (Some ex, w2) \<Rightarrow> (Raised ex, w2)
           | (None, w4) \<Rightarrow>
               (case plugin_loop e sk out ratio wrap plugins 0 w4 of
                  (Some ex, categories_searched, w5) \<Rightarrow> (Raised ex, w5)
                | (None, categories_searched, w5) \<Rightarrow>
                    (case finalize e extracttype in_path out casedata w5 of
                       (Some ex, w6) \<Rightarrow> (Raised ex, w6)
                     | (None, w6) \<Rightarrow> (Returned True, w6)))))"

subsection \<open>JSON values, as \<^verbatim>\<open>json.load\<close> gives them\<close>

text \<open>
  A Python float is a finite value or one of the three that \<^verbatim>\<open>json.load\<close> reads from
  \<^verbatim>\<open>Infinity\<close>, \<^verbatim>\<open>-Infinity\<close> and \<^verbatim>\<open>NaN\<close>. An object is the list of its items; the keys of a
  Python dict are distinct, and a key is looked up with \<open>map_of\<close>.
\<close>

datatype pyfloat = Finite rat | PosInfinity | NegInfinity | NaN

datatype json =
    JNull | JBool bool | JInt int | JFloat pyfloat | JStr string
  | JArr "json list" | JObj "(string \<times> json) list"

text \<open>\<^verbatim>\<open>d.get(key)\<close> is \<^verbatim>\<open>None\<close> for a missing key; \<^verbatim>\<open>d.get(key, default)\<close> is the default.\<close>

definition dict_get_default :: "(string \<times> json) list \<Rightarrow> string \<Rightarrow> json \<Rightarrow> json" where
  "dict_get_default kv k d = (case map_of kv k of None \<Rightarrow> d | Some v \<Rightarrow> v)"

definition dict_get :: "(string \<times> json) list \<Rightarrow> string \<Rightarrow> json" where
  "dict_get kv k = dict_get_default kv k JNull"

text \<open>
  Python's \<^verbatim>\<open>==\<close> against a str and against an int. A str equals only a str. An int
  equals an int, a float and a bool of the same numeric value: \<^verbatim>\<open>True == 1\<close> and
  \<^verbatim>\<open>1.0 == 1\<close> hold.
\<close>

fun py_eq_str :: "json \<Rightarrow> string \<Rightarrow> bool" where
  "py_eq_str (JStr s) c = (s = c)"
| "py_eq_str _ c = False"

fun py_eq_int :: "json \<Rightarrow> int \<Rightarrow> bool" where
  "py_eq_int (JInt n) c = (n = c)"
| "py_eq_int (JBool b) c = ((if b then 1 else 0) = c)"
| "py_eq_int (JFloat (Finite r)) c = (r = of_int c)"
| "py_eq_int _ c = False"

text \<open>
  \<^verbatim>\<open>set(x)\<close>: the elements of a list, which must be hashable (a list and a dict are not);
  the characters of a str; the keys of a dict; anything else is not iterable. Both
  failures are a TypeError. The result is used for \<^verbatim>\<open>name in profile_plugins\<close> with a str
  on the left only, and a str equals only a str.
\<close>

fun hashable :: "json \<Rightarrow> bool" where
  "hashable (JArr xs) = False"
| "hashable (JObj kv) = False"
| "hashable _ = True"

definition py_set :: "json \<Rightarrow> exc_class + json set" where
  "py_set v =
     (case v of
        JArr xs \<Rightarrow> if list_all hashable xs then Inr (set xs) else Inl TypeError
      | JStr s \<Rightarrow> Inr (set (map (\<lambda>c. JStr [c]) s))
      | JObj kv \<Rightarrow> Inr (set (map (\<lambda>item. JStr (fst item)) kv))
      | _ \<Rightarrow> Inl TypeError)"

subsection \<open>The command line: \<^verbatim>\<open>validate_args\<close> and \<^verbatim>\<open>main\<close> (lines 15 to 34 and 110 to 208)\<close>

text \<open>The namespace \<^verbatim>\<open>argparse\<close> gives; \<open>t_opt\<close> is \<^verbatim>\<open>args.t\<close>.\<close>

record args =
  t_opt :: "string option"
  output_path :: "string option"
  input_path :: "string option"
  wrap_text :: bool
  load_profile :: "string option"
  create_profile :: "string option"
  artifact_paths :: bool

text \<open>
  What \<^verbatim>\<open>open\<close> and \<^verbatim>\<open>json.load\<close> make of a profile file: the value read, a
  \<^verbatim>\<open>json.JSONDecodeError\<close> with its text, or an exception of another class (the file
  cannot be opened, or it is not UTF-8), which line 170 does not handle.
\<close>

datatype load_result = Loaded json | JSONDecodeError string | ReadError exc_class

text \<open>What \<^verbatim>\<open>main\<close> calls but the script does not define.\<close>

record host =
  json_load :: "string \<Rightarrow> load_result"
  abspath :: "string \<Rightarrow> string"
  isdir :: "string \<Rightarrow> bool"
  OutputParameters :: "string \<Rightarrow> out_params"

text \<open>The arguments of the call of \<^verbatim>\<open>crunch_artifacts\<close> at line 208.\<close>

record crunch_call =
  c_plugins :: "plugin list"
  c_extracttype :: string
  c_input_path :: string
  c_out_params :: out_params
  c_ratio :: nat
  c_wrap_text :: bool
  c_casedata :: "(string \<times> string) list"
  c_profile_filename :: "string option"

text \<open>
  How \<^verbatim>\<open>main\<close> ends: \<^verbatim>\<open>parser.error(message)\<close>, which prints the usage and the message and
  exits with status 2; the list of artifact paths written; the interactive
  \<^verbatim>\<open>create_profile\<close> called, or its folder missing; the profile refused, with the message
  printed before \<^verbatim>\<open>return\<close>; an exception that nothing handles; or the dispatch pass
  called.
\<close>

datatype outcome =
    UsageError string
  | PathList "string list"
  | CreateProfile "plugin list" string
  | ProfileFolderMissing
  | ProfileInvalid string
  | Crashed exc_class
  | Dispatched crunch_call

text \<open>
  \<open>Some message\<close>: \<^verbatim>\<open>argparse.ArgumentError(None, message)\<close> is raised. Paths are looked
  up with \<^verbatim>\<open>os.path.exists\<close>.
\<close>

definition validate_args :: "world \<Rightarrow> args \<Rightarrow> string option" where
  "validate_args w a =
     (if artifact_paths a \<or> truthy (create_profile a) then None
      else
        (case input_path a of
           None \<Rightarrow> Some ''No INPUT_PATH provided. Run the program again.''
         | Some inp \<Rightarrow>
        (case output_path a of
           None \<Rightarrow> Some ''No OUTPUT_PATH provided. Run the program again.''
         | Some outp \<Rightarrow>
        (case t_opt a of
           None \<Rightarrow> Some ''No T provided. Run the program again.''
         | Some extracttype \<Rightarrow>
             if \<not> os_path_exists w inp then
               Some ''INPUT file/folder does not exist! Run the program again.''
             else if \<not> os_path_exists w outp then
               Some ''OUTPUT folder does not exist! Run the program again.''
             else
               (case load_profile a of
                  Some f \<Rightarrow>
                    if f \<noteq> [] \<and> \<not> os_path_exists w f then
                      Some ''DLEAPP Profile file not found! Run the program again.''
                    else None
                | None \<Rightarrow> None)))))"

text \<open>
  Lines 140 to 154. A tuple of patterns is written one by one; anything else is added to
  \<^verbatim>\<open>'\\n'\<close> with \<^verbatim>\<open>+\<close>, a TypeError for a list. The lines are given without the newline.
\<close>

fun artifact_path_lines :: "plugin list \<Rightarrow> exc_class + string list" where
  "artifact_path_lines [] = Inr []"
| "artifact_path_lines (p # ps) =
     (case search p of
        SearchList xs \<Rightarrow> Inl TypeError
      | SearchTuple xs \<Rightarrow>
          (case artifact_path_lines ps of Inl c \<Rightarrow> Inl c | Inr ls \<Rightarrow> Inr (xs @ ls))
      | SearchStr x \<Rightarrow>
          (case artifact_path_lines ps of Inl c \<Rightarrow> Inl c | Inr ls \<Rightarrow> Inr (x # ls)))"

text \<open>
  Lines 164 to 188, for a profile file name that is not empty: the way \<^verbatim>\<open>main\<close> ends
  there, or the plugins selected.
\<close>

definition select_by_profile :: "host \<Rightarrow> plugin list \<Rightarrow> string \<Rightarrow> outcome + plugin list" where
  "select_by_profile h available_plugins profile_filename =
     (case json_load h profile_filename of
        ReadError c \<Rightarrow> Inl (Crashed c)
      | JSONDecodeError json_ex \<Rightarrow>
          Inl (ProfileInvalid (''File was not a valid profile file: '' @ json_ex))
      | Loaded profile \<Rightarrow>
          (case profile of
             JObj kv \<Rightarrow>
               if \<not> py_eq_str (dict_get kv ''leapp'') ''dleapp''
                  \<or> \<not> py_eq_int (dict_get kv ''format_version'') 1
               then Inl (ProfileInvalid
                           ''File was not a valid profile file: incorrect LEAPP or version'')
               else
                 (case py_set (dict_get_default kv ''plugins'' (JArr [])) of
                    Inl c \<Rightarrow> Inl (Crashed c)
                  | Inr profile_plugins \<Rightarrow>
                      Inr (filter (\<lambda>selected_plugin. JStr (name selected_plugin) \<in> profile_plugins)
                             available_plugins))
           | _ \<Rightarrow> Inl (ProfileInvalid ''File was not a valid profile file: invalid format'')))"

text \<open>
  Lines 190 to 199: the input path and the absolute output path, prefixed on Windows.
  \<^verbatim>\<open>input_path[1]\<close> raises IndexError for a path shorter than two characters.
\<close>

definition to_backslashes :: "string \<Rightarrow> string" where
  "to_backslashes s = map (\<lambda>c. if c = CHR ''/'' then bslash else c) s"

definition prepare_paths :: "env \<Rightarrow> host \<Rightarrow> string \<Rightarrow> string \<Rightarrow> string \<Rightarrow> exc_class + string \<times> string" where
  "prepare_paths e h extracttype inp outp =
     (let out_abs = abspath h outp in
      if is_platform_windows e then
        if length inp < 2 then Inl IndexError
        else
          let inp' = (if inp ! 1 = CHR '':'' \<and> extracttype = ''fs''
                      then long_prefix @ to_backslashes inp else inp)
          in if length out_abs < 2 then Inl IndexError
             else Inr (inp',
                       if out_abs ! 1 = CHR '':'' then long_prefix @ to_backslashes out_abs
                       else out_abs)
      else Inr (inp, out_abs))"

text \<open>
  \<^verbatim>\<open>main\<close>, from the parsed arguments on. \<^verbatim>\<open>casedata\<close> is unbound at line 204 (it is
  assigned in the function, so the name is local), the NameError is caught and the call
  of line 208 is always made, with an empty \<^verbatim>\<open>casedata\<close>. After the checks of
  \<^verbatim>\<open>validate_args\<close> the three mandatory arguments are there; \<^verbatim>\<open>os.path.abspath(None)\<close>
  would be a TypeError.
\<close>

definition main :: "env \<Rightarrow> host \<Rightarrow> plugin list \<Rightarrow> args \<Rightarrow> world \<Rightarrow> outcome" where
  "main e h available_plugins a w =
     (case validate_args w a of
        Some message \<Rightarrow> UsageError message
      | None \<Rightarrow>
          if artifact_paths a then
            (case artifact_path_lines available_plugins of
               Inl c \<Rightarrow> Crashed c
             | Inr ls \<Rightarrow> PathList ls)
          else if truthy (create_profile a) then
            (case create_profile a of
               Some d \<Rightarrow> if isdir h d then CreateProfile available_plugins d
                         else ProfileFolderMissing
             | None \<Rightarrow> ProfileFolderMissing)
          else
            (case (if truthy (load_profile a)
                   then (case load_profile a of
                           Some f \<Rightarrow> select_by_profile h available_plugins f
                         | None \<Rightarrow> Inr available_plugins)
                   else Inr available_plugins) of
               Inl ended \<Rightarrow> ended
             | Inr selected_plugins \<Rightarrow>
                 (case (input_path a, output_path a, t_opt a) of
                    (Some inp, Some outp, Some extracttype) \<Rightarrow>
                      (case prepare_paths e h extracttype inp outp of
                         Inl c \<Rightarrow> Crashed c
                       | Inr (inp', outp') \<Rightarrow>
                           Dispatched
                             \<lparr>c_plugins = selected_plugins, c_extracttype = extracttype,
                              c_input_path = inp', c_out_params = OutputParameters h outp',
                              c_ratio = 1, c_wrap_text = wrap_text a, c_casedata = [],
                              c_profile_filename =
                                (if truthy (load_profile a) then load_profile a else None)\<rparr>)
                  | _ \<Rightarrow> Crashed TypeError)))"

section \<open>What the properties are stated with\<close>

text \<open>
  The definitions of this section are not translations of code: they name what the
  properties below speak about.
\<close>

text \<open>The matches of a plugin: those of its patterns, in the order declared.\<close>

definition files_of :: "seeker \<Rightarrow> plugin \<Rightarrow> string list" where
  "files_of sk p = concat (map sk (search_regexes p))"

text \<open>The category folder of a plugin.\<close>

definition folder_of :: "env \<Rightarrow> out_params \<Rightarrow> plugin \<Rightarrow> string" where
  "folder_of e out p = path_join e (report_folder_base out) (category p)"

text \<open>The folder is there, or \<^verbatim>\<open>os.mkdir\<close> will make it.\<close>

definition folder_ready :: "env \<Rightarrow> world \<Rightarrow> string \<Rightarrow> bool" where
  "folder_ready e w d = (d \<in> set (existing w) \<or> mkdir_fault e d = None)"

text \<open>
  Every fault of \<^verbatim>\<open>os.mkdir\<close> is of a class that line 285 handles.
\<close>

definition caught_only :: "env \<Rightarrow> bool" where
  "caught_only e =
     (\<forall>d ex. mkdir_fault e d = Some ex \<longrightarrow> cls ex = FileExistsError \<or> cls ex = FileNotFoundError)"

text \<open>What the parse method of a plugin raises, if anything, is an \<^verbatim>\<open>Exception\<close>.\<close>

definition raises_only_exceptions :: "env \<Rightarrow> seeker \<Rightarrow> out_params \<Rightarrow> bool \<Rightarrow> plugin \<Rightarrow> bool" where
  "raises_only_exceptions e sk out wrap p =
     (case method_fn p (files_of sk p) (folder_of e out p) sk wrap of
        Raises ex \<Rightarrow> is_Exception (cls ex)
      | Returns \<Rightarrow> True)"

text \<open>The state in which the loop starts, when the audit file could be opened.\<close>

definition loop_start ::
  "env \<Rightarrow> out_params \<Rightarrow> plugin list \<Rightarrow> string \<Rightarrow> string option \<Rightarrow> world \<Rightarrow> world" where
  "loop_start e out plugins in_path profile_filename w =
     snd (ready_to_run e out plugins in_path profile_filename (logfuncs (banner e) w))"

text \<open>
  The audit entry of one pattern, in the spec's words: a note that no file matched, or
  the count of the matches, then each location with the long-path prefix stripped, then
  the closing tags.
\<close>

definition path_item :: "string \<Rightarrow> string" where
  "path_item pathh = ''<ul><li>'' @ strip_long_prefix pathh @ ''</li></ul>''"

definition pattern_entry :: "seeker \<Rightarrow> string \<Rightarrow> string list" where
  "pattern_entry sk r =
     (if sk r = [] then [''<ul><li>No file found for regex <i>'' @ r @ ''</i></li></ul>'']
      else [''<ul><li>'' @ str_nat (length (sk r)) @ '' ''
              @ (if length (sk r) > 1 then ''files'' else ''file'')
              @ '' for regex <i>'' @ r @ ''</i> located at:'']
           @ map path_item (sk r) @ [''</li></ul>''])"

text \<open>The audit entries of one plugin: its heading, then one entry for each pattern.\<close>

definition plugin_audit :: "seeker \<Rightarrow> plugin \<Rightarrow> string list" where
  "plugin_audit sk p =
     (''<b>For '' @ name p @ '' parser</b>'') # concat (map (pattern_entry sk) (search_regexes p))"


text \<open>A plugin the loop calls: it has a match and its folder is there or can be made.\<close>

definition invocable :: "env \<Rightarrow> seeker \<Rightarrow> out_params \<Rightarrow> world \<Rightarrow> plugin \<Rightarrow> bool" where
  "invocable e sk out w p = (files_of sk p \<noteq> [] \<and> folder_ready e w (folder_of e out p))"

text \<open>The state after the search of a plugin, and the state when its folder is looked at.\<close>

definition searched :: "seeker \<Rightarrow> plugin \<Rightarrow> world \<Rightarrow> world" where
  "searched sk p w = w\<lparr>audit := audit w @ plugin_audit sk p\<rparr>"

definition started :: "seeker \<Rightarrow> plugin \<Rightarrow> world \<Rightarrow> world" where
  "started sk p w =
     logfunc (name p @ '' ['' @ module_name_str p @ ''] artifact started'')
       (logfunc [] (searched sk p w))"

subsection \<open>A sample environment\<close>

text \<open>\<^verbatim>\<open>posixpath.join\<close> of two components.\<close>

definition posix_join :: "string \<Rightarrow> string \<Rightarrow> string" where
  "posix_join a b =
     (if b \<noteq> [] \<and> hd b = CHR ''/'' then b
      else if a = [] \<or> last a = CHR ''/'' then a @ b
      else a @ ''/'' @ b)"

definition ex_seeker :: seeker where
  "ex_seeker r =
     (if r = ''*/a.log'' then [''/in/a.log'']
      else if r = ''*/*.log'' then [''/in/a.log'', ''/in/b.log'']
      else [])"

definition ex_env :: env where
  "ex_env =
     \<lparr>is_platform_windows = False, path_join = posix_join,
      FileSeekerDir = (\<lambda>d. Inr ex_seeker),
      FileSeekerTar = (\<lambda>f t. Inl (Exc OSError ''not a tar file'' ''Traceback: not a tar file'')),
      FileSeekerZip = (\<lambda>f t. Inl (Exc OSError ''not a zip file'' ''Traceback: not a zip file'')),
      mkdir_fault = (\<lambda>d. None), open_fault = (\<lambda>f. None), generate_report_fault = None,
      dleapp_version = ''1.0'', devinfo = [],
      run_time_secs = 0, run_time_HMS = ''00:00:00''\<rparr>"

text \<open>The same, but no directory can be made: permission denied.\<close>

definition ex_env_denied :: env where
  "ex_env_denied =
     ex_env\<lparr>mkdir_fault :=
       (\<lambda>d. Some (Exc PermissionError ''[Errno 13] Permission denied'' ''Traceback: PermissionError''))\<rparr>"

text \<open>The same, but the parent of every directory to make is missing.\<close>

definition ex_env_missing :: env where
  "ex_env_missing =
     ex_env\<lparr>mkdir_fault :=
       (\<lambda>d. Some (Exc FileNotFoundError ''[Errno 2] No such file or directory'' ''Traceback: FileNotFoundError''))\<rparr>"

text \<open>The same, but the folder of the audit file is missing.\<close>

definition ex_env_nolog :: env where
  "ex_env_nolog =
     ex_env\<lparr>open_fault :=
       (\<lambda>f. Some (Exc FileNotFoundError ''[Errno 2] No such file or directory'' ''Traceback: FileNotFoundError''))\<rparr>"

text \<open>The same on Windows, and a seeker that gives a path with the long-path prefix.\<close>

definition ex_seeker_win :: seeker where
  "ex_seeker_win r = (if r = ''*/a.log'' then [long_prefix @ ''C:/in/a.log''] else [])"

definition ex_env_win :: env where
  "ex_env_win = ex_env\<lparr>is_platform_windows := True\<rparr>"

definition ex_out :: out_params where
  "ex_out = \<lparr>report_folder_base = ''/out/R'', temp_folder = ''/out/R/temp''\<rparr>"

definition ex_world :: world where
  "ex_world =
     \<lparr>run_log = [], log_file = NotOpened, audit = [],
      existing = [''/in'', ''/out'', ''/out/R''],
      invoked = [], progress = [], reports = []\<rparr>"

definition plugin_A :: plugin where
  "plugin_A =
     \<lparr>name = ''A'', module_name_str = ''modA'', category = ''Logs'',
      search = SearchStr ''*/a.log'', method_fn = (\<lambda>fs d sk wrap. Returns)\<rparr>"

text \<open>A plugin whose parse method always raises; both of its patterns match a.log.\<close>

definition plugin_B :: plugin where
  "plugin_B =
     \<lparr>name = ''B'', module_name_str = ''modB'', category = ''Logs'',
      search = SearchTuple [''*/a.log'', ''*/*.log''],
      method_fn = (\<lambda>fs d sk wrap. Raises (Exc ValueError ''boom'' ''Traceback: ValueError: boom''))\<rparr>"

definition plugin_C :: plugin where
  "plugin_C =
     \<lparr>name = ''C'', module_name_str = ''modC'', category = ''Other'',
      search = SearchList [''*/*.log''], method_fn = (\<lambda>fs d sk wrap. Returns)\<rparr>"

text \<open>A plugin whose parse method leaves the interpreter, as \<^verbatim>\<open>sys.exit(1)\<close> does.\<close>

definition plugin_S :: plugin where
  "plugin_S =
     \<lparr>name = ''S'', module_name_str = ''modS'', category = ''Logs'',
      search = SearchStr ''*/a.log'',
      method_fn = (\<lambda>fs d sk wrap. Raises (Exc SystemExit ''1'' ''Traceback: SystemExit: 1''))\<rparr>"

text \<open>A plugin whose patterns match nothing.\<close>

definition plugin_N :: plugin where
  "plugin_N =
     \<lparr>name = ''N'', module_name_str = ''modN'', category = ''None'',
      search = SearchTuple [''*/x.db'', ''*/y.db''], method_fn = (\<lambda>fs d sk wrap. Returns)\<rparr>"

text \<open>
  The run reaches line 164 with a profile file to load: the arguments pass
  \<^verbatim>\<open>validate_args\<close>, neither \<^verbatim>\<open>-p\<close> nor \<^verbatim>\<open>-c\<close> is given, and \<^verbatim>\<open>-l\<close> names the file.
\<close>

definition loads_profile :: "world \<Rightarrow> args \<Rightarrow> string \<Rightarrow> bool" where
  "loads_profile w a f =
     (validate_args w a = None \<and> \<not> artifact_paths a \<and> \<not> truthy (create_profile a)
      \<and> load_profile a = Some f \<and> f \<noteq> [])"

text \<open>A sample command line, \<^verbatim>\<open>-t fs -i /in -o /out -l /in/p.dlprofile\<close>, and its host.\<close>

definition ex_args :: args where
  "ex_args =
     \<lparr>t_opt = Some ''fs'', output_path = Some ''/out'', input_path = Some ''/in'',
      wrap_text = True, load_profile = Some ''/in/p.dlprofile'', create_profile = None,
      artifact_paths = False\<rparr>"

definition ex_host :: "load_result \<Rightarrow> host" where
  "ex_host content =
     \<lparr>json_load = (\<lambda>f. content), abspath = (\<lambda>p. p), isdir = (\<lambda>d. True),
      OutputParameters =
        (\<lambda>outp. \<lparr>report_folder_base = posix_join outp ''R'',
                  temp_folder = posix_join (posix_join outp ''R'') ''temp''\<rparr>)\<rparr>"

definition ex_world_profile :: world where
  "ex_world_profile = ex_world\<lparr>existing := existing ex_world @ [''/in/p.dlprofile'']\<rparr>"

definition registry :: "plugin list" where
  "registry = [plugin_A, plugin_B, plugin_C, plugin_N]"

section \<open>Lemmas on the loop\<close>

lemma logfunc_fields [simp]:
  "run_log (logfunc m w) = run_log w @ [m]"
  "audit (logfunc m w) = audit w"
  "existing (logfunc m w) = existing w"
  "invoked (logfunc m w) = invoked w"
  "progress (logfunc m w) = progress w"
  "reports (logfunc m w) = reports w"
  "log_file (logfunc m w) = log_file w"
  by (simp_all add: logfunc_def)

lemma logfuncs_eq: "logfuncs ms w = w\<lparr>run_log := run_log w @ ms\<rparr>"
  unfolding logfuncs_def
  by (induction ms arbitrary: w) (simp_all add: logfunc_def)

lemma write_paths_eq: "write_paths fs w = w\<lparr>audit := audit w @ map path_item fs\<rparr>"
  by (induction fs arbitrary: w) (simp_all add: log_write_def path_item_def)

lemma search_loop_eq:
  "search_loop sk rs acc w =
     (acc @ concat (map sk rs), w\<lparr>audit := audit w @ concat (map (pattern_entry sk) rs)\<rparr>)"
  by (induction rs arbitrary: acc w)
     (simp_all add: Let_def log_write_def write_paths_eq pattern_entry_def)

lemma run_plugin_eq:
  "run_plugin e sk out wrap p w =
     (if files_of sk p \<noteq> [] then
        (case make_category_folder e p (folder_of e out p)
                (logfunc (name p @ '' ['' @ module_name_str p @ ''] artifact started'')
                   (logfunc [] (searched sk p w))) of
           (Some fl, w5) \<Rightarrow> (fl, w5)
         | (None, w5) \<Rightarrow> call_method p (files_of sk p) (folder_of e out p) sk wrap w5)
      else (FallThrough, searched sk p w))"
  unfolding run_plugin_def files_of_def folder_of_def searched_def plugin_audit_def
  by (simp add: search_loop_eq log_write_def Let_def)

lemma run_plugin_empty:
  "files_of sk p = [] \<Longrightarrow> run_plugin e sk out wrap p w = (FallThrough, searched sk p w)"
  by (simp add: run_plugin_eq)

lemma started_fields [simp]:
  "run_log (started sk p w) = run_log w @ [[], name p @ '' ['' @ module_name_str p @ ''] artifact started'']"
  "audit (started sk p w) = audit w @ plugin_audit sk p"
  "existing (started sk p w) = existing w"
  "invoked (started sk p w) = invoked w"
  "progress (started sk p w) = progress w"
  "reports (started sk p w) = reports w"
  "log_file (started sk p w) = log_file w"
  by (simp_all add: started_def searched_def)

lemma searched_fields [simp]:
  "run_log (searched sk p w) = run_log w"
  "audit (searched sk p w) = audit w @ plugin_audit sk p"
  "existing (searched sk p w) = existing w"
  "invoked (searched sk p w) = invoked w"
  "progress (searched sk p w) = progress w"
  "reports (searched sk p w) = reports w"
  "log_file (searched sk p w) = log_file w"
  by (simp_all add: searched_def)

lemma run_plugin_cases:
  "run_plugin e sk out wrap p w =
     (if files_of sk p = [] then (FallThrough, searched sk p w)
      else if folder_of e out p \<in> set (existing w) then
        call_method p (files_of sk p) (folder_of e out p) sk wrap (started sk p w)
      else (case mkdir_fault e (folder_of e out p) of
              None \<Rightarrow> call_method p (files_of sk p) (folder_of e out p) sk wrap
                        ((started sk p w)\<lparr>existing := existing w @ [folder_of e out p]\<rparr>)
            | Some ex \<Rightarrow>
                if cls ex = FileExistsError \<or> cls ex = FileNotFoundError then
                  (Continue,
                   logfunc (''Error was '' @ str_of ex)
                     (logfunc (''Error creating '' @ name p @ '' report directory at path ''
                               @ folder_of e out p) (started sk p w)))
                else (Propagate ex, started sk p w)))"
  by (simp add: run_plugin_eq make_category_folder_def os_path_exists_def started_def
        split: option.splits)

lemma call_method_fields [simp]:
  "audit (snd (call_method p fs d sk wrap w)) = audit w"
  "existing (snd (call_method p fs d sk wrap w)) = existing w"
  "progress (snd (call_method p fs d sk wrap w)) = progress w"
  "reports (snd (call_method p fs d sk wrap w)) = reports w"
  "log_file (snd (call_method p fs d sk wrap w)) = log_file w"
  "invoked (snd (call_method p fs d sk wrap w)) =
     invoked w @ [\<lparr>i_name = name p, i_files_found = fs, i_category_folder = d, i_wrap_text = wrap\<rparr>]"
  by (simp_all add: call_method_def Let_def split: method_result.splits)

lemma call_method_flow:
  "fst (call_method p fs d sk wrap w) =
     (case method_fn p fs d sk wrap of
        Raises ex \<Rightarrow> if is_Exception (cls ex) then Continue else Propagate ex
      | Returns \<Rightarrow> FallThrough)"
  by (simp add: call_method_def Let_def split: method_result.splits)


lemma progress_run_plugin: "progress (snd (run_plugin e sk out wrap p w)) = progress w"
  by (simp add: run_plugin_cases split: option.splits)


lemma log_file_run_plugin: "log_file (snd (run_plugin e sk out wrap p w)) = log_file w"
  by (simp add: run_plugin_cases split: option.splits)




lemma SetProgressBar_fields [simp]:
  "run_log (SetProgressBar n w) = run_log w"
  "audit (SetProgressBar n w) = audit w"
  "existing (SetProgressBar n w) = existing w"
  "invoked (SetProgressBar n w) = invoked w"
  "progress (SetProgressBar n w) = progress w @ [n]"
  "reports (SetProgressBar n w) = reports w"
  "log_file (SetProgressBar n w) = log_file w"
  by (simp_all add: SetProgressBar_def)

lemma folder_ready_SetProgressBar [simp]:
  "folder_ready e (SetProgressBar n w) d = folder_ready e w d"
  by (simp add: folder_ready_def)

lemma plugin_loop_step:
  "plugin_loop e sk out ratio wrap (p # ps) cs w =
     (case fst (run_plugin e sk out wrap p w) of
        Propagate ex \<Rightarrow> (Some ex, cs, snd (run_plugin e sk out wrap p w))
      | Continue \<Rightarrow> plugin_loop e sk out ratio wrap ps cs (snd (run_plugin e sk out wrap p w))
      | FallThrough \<Rightarrow>
          plugin_loop e sk out ratio wrap ps (cs + 1)
            (SetProgressBar ((cs + 1) * ratio) (snd (run_plugin e sk out wrap p w))))"
  by (cases "run_plugin e sk out wrap p w") (simp split: flow.splits)





lemma finalize_fields [simp]:
  "fst (finalize e t i out cd w) = generate_report_fault e"
  "audit (snd (finalize e t i out cd w)) = audit w"
  "invoked (snd (finalize e t i out cd w)) = invoked w"
  "existing (snd (finalize e t i out cd w)) = existing w"
  "progress (snd (finalize e t i out cd w)) = progress w"
  "log_file (snd (finalize e t i out cd w)) = Closed"
  "reports (snd (finalize e t i out cd w)) = reports w @
     [\<lparr>r_report_folder_base =
         (if is_platform_windows e then strip_long_prefix (report_folder_base out)
          else report_folder_base out),
       r_run_time_secs = run_time_secs e, r_run_time_HMS = run_time_HMS e,
       r_extracttype = t,
       r_input_path = (if is_platform_windows e then strip_long_prefix i else i),
       r_casedata = cd\<rparr>]"
  by (simp_all add: finalize_def logfuncs_eq Let_def split: option.splits)


lemma ready_to_run_fields [simp]:
  "fst (ready_to_run e out ps i pf w) = open_fault e (audit_log_path e out)"
  "invoked (snd (ready_to_run e out ps i pf w)) = invoked w"
  "reports (snd (ready_to_run e out ps i pf w)) = reports w"
  "existing (snd (ready_to_run e out ps i pf w)) = existing w"
  "progress (snd (ready_to_run e out ps i pf w)) = progress w"
  by (simp_all add: ready_to_run_def Let_def logfuncs_eq log_write_def split: option.splits)



lemma logfuncs_fields [simp]:
  "run_log (logfuncs ms w) = run_log w @ ms"
  "audit (logfuncs ms w) = audit w"
  "existing (logfuncs ms w) = existing w"
  "invoked (logfuncs ms w) = invoked w"
  "progress (logfuncs ms w) = progress w"
  "reports (logfuncs ms w) = reports w"
  "log_file (logfuncs ms w) = log_file w"
  by (simp_all add: logfuncs_eq)

lemma loop_start_fields [simp]:
  "invoked (loop_start e out ps i pf w) = invoked w"
  "reports (loop_start e out ps i pf w) = reports w"
  "existing (loop_start e out ps i pf w) = existing w"
  "progress (loop_start e out ps i pf w) = progress w"
  by (simp_all add: loop_start_def)


lemma crunch_with_seeker:
  assumes "construct_seeker e t i out = Some (Inr sk)"
  shows "crunch_artifacts e ps t i out ratio wrap cd pf w =
           (case open_fault e (audit_log_path e out) of
              Some ex \<Rightarrow> (Raised ex, loop_start e out ps i pf w)
            | None \<Rightarrow>
                (case fst (plugin_loop e sk out ratio wrap ps 0 (loop_start e out ps i pf w)) of
                   Some ex \<Rightarrow>
                     (Raised ex,
                      snd (snd (plugin_loop e sk out ratio wrap ps 0 (loop_start e out ps i pf w))))
                 | None \<Rightarrow>
                     (case generate_report_fault e of
                        Some ex \<Rightarrow>
                          (Raised ex,
                           snd (finalize e t i out cd
                                  (snd (snd (plugin_loop e sk out ratio wrap ps 0
                                               (loop_start e out ps i pf w))))))
                      | None \<Rightarrow>
                          (Returned True,
                           snd (finalize e t i out cd
                                  (snd (snd (plugin_loop e sk out ratio wrap ps 0
                                               (loop_start e out ps i pf w)))))))))"
proof -
  obtain o1 w1 where r: "ready_to_run e out ps i pf (logfuncs (banner e) w) = (o1, w1)"
    by (cases "ready_to_run e out ps i pf (logfuncs (banner e) w)")
  have o1: "o1 = open_fault e (audit_log_path e out)"
    using ready_to_run_fields(1) [of e out ps i pf "logfuncs (banner e) w"] r by simp
  have w1: "loop_start e out ps i pf w = w1"
    by (simp add: loop_start_def r)
  obtain l n w5 where l: "plugin_loop e sk out ratio wrap ps 0 w1 = (l, n, w5)"
    by (cases "plugin_loop e sk out ratio wrap ps 0 w1")
  obtain f w6 where f: "finalize e t i out cd w5 = (f, w6)"
    by (cases "finalize e t i out cd w5")
  have f1: "f = generate_report_fault e"
    using finalize_fields(1) [of e t i out cd w5] f by simp
  show ?thesis
    using assms o1 f1
    by (simp add: crunch_artifacts_def Let_def r w1 l f split: option.splits)
qed

lemma no_match_entries:
  "\<forall>r\<in>set rs. sk r = [] \<Longrightarrow>
   concat (map (pattern_entry sk) rs) =
     map (\<lambda>r. ''<ul><li>No file found for regex <i>'' @ r @ ''</i></li></ul>'') rs"
  by (induction rs) (simp_all add: pattern_entry_def)


lemmas ex_defs =
  ex_env_def ex_env_denied_def ex_env_missing_def ex_env_nolog_def ex_out_def ex_world_def
  ex_seeker_def plugin_A_def plugin_B_def plugin_C_def plugin_N_def plugin_S_def posix_join_def

lemmas run_defs =
  crunch_artifacts_def construct_seeker_def ready_to_run_def audit_log_path_def
  finalize_def banner_def
  run_plugin_def make_category_folder_def call_method_def search_regexes_def
  logfuncs_def logfunc_def log_write_def os_path_exists_def SetProgressBar_def
  strip_long_prefix_def startswith_def long_prefix_def bslash_def
  str_nat.simps digit_char_def Let_def



lemma has_match_iff: "(\<exists>r\<in>set (search_regexes p). sk r \<noteq> []) = (files_of sk p \<noteq> [])"
  by (auto simp: files_of_def)

lemma count_list_concat:
  "count_list (concat xss) x = sum_list (map (\<lambda>xs. count_list xs x) xss)"
  by (induction xss) simp_all

lemma run_plugin_invoke:
  assumes "files_of sk p \<noteq> []" and "folder_ready e w (folder_of e out p)"
  shows "\<exists>w'. run_plugin e sk out wrap p w =
                 call_method p (files_of sk p) (folder_of e out p) sk wrap w'
             \<and> run_log w' = run_log w @ [[], name p @ '' ['' @ module_name_str p @ ''] artifact started'']
             \<and> invoked w' = invoked w"
proof (cases "folder_of e out p \<in> set (existing w)")
  case True
  then show ?thesis
    using assms by (intro exI [of _ "started sk p w"]) (simp add: run_plugin_cases)
next
  case False
  then have "mkdir_fault e (folder_of e out p) = None"
    using assms(2) by (simp add: folder_ready_def)
  then show ?thesis
    using assms False
    by (intro exI [of _ "(started sk p w)\<lparr>existing := existing w @ [folder_of e out p]\<rparr>"])
       (simp add: run_plugin_cases)
qed






subsection \<open>The sample environment, evaluated\<close>

lemma ex_names [simp]:
  "name plugin_A = ''A''" "name plugin_B = ''B''" "name plugin_C = ''C''" "name plugin_N = ''N''"
  "name plugin_S = ''S''"
  "module_name_str plugin_A = ''modA''" "module_name_str plugin_B = ''modB''"
  "module_name_str plugin_C = ''modC''" "module_name_str plugin_N = ''modN''"
  by (simp_all add: plugin_A_def plugin_B_def plugin_C_def plugin_N_def plugin_S_def)

lemma ex_regexes [simp]:
  "search_regexes plugin_A = [''*/a.log'']"
  "search_regexes plugin_B = [''*/a.log'', ''*/*.log'']"
  "search_regexes plugin_C = [''*/*.log'']"
  "search_regexes plugin_N = [''*/x.db'', ''*/y.db'']"
  "search_regexes plugin_S = [''*/a.log'']"
  by (simp_all add: search_regexes_def plugin_A_def plugin_B_def plugin_C_def plugin_N_def
        plugin_S_def)

lemma ex_seeker_values [simp]:
  "ex_seeker ''*/a.log'' = [''/in/a.log'']"
  "ex_seeker ''*/*.log'' = [''/in/a.log'', ''/in/b.log'']"
  "ex_seeker ''*/x.db'' = []"
  "ex_seeker ''*/y.db'' = []"
  by (simp_all add: ex_seeker_def)

lemma ex_files [simp]:
  "files_of ex_seeker plugin_A = [''/in/a.log'']"
  "files_of ex_seeker plugin_B = [''/in/a.log'', ''/in/a.log'', ''/in/b.log'']"
  "files_of ex_seeker plugin_C = [''/in/a.log'', ''/in/b.log'']"
  "files_of ex_seeker plugin_N = []"
  by (simp_all add: files_of_def)

lemma ex_joins [simp]:
  "path_join ex_env (report_folder_base ex_out) (category plugin_A) = ''/out/R/Logs''"
  "path_join ex_env (report_folder_base ex_out) (category plugin_B) = ''/out/R/Logs''"
  "path_join ex_env (report_folder_base ex_out) (category plugin_C) = ''/out/R/Other''"
  "path_join ex_env_missing (report_folder_base ex_out) (category plugin_A) = ''/out/R/Logs''"
  "path_join ex_env_denied (report_folder_base ex_out) (category plugin_A) = ''/out/R/Logs''"
  by (simp_all add: ex_env_def ex_env_missing_def ex_env_denied_def ex_out_def posix_join_def
        plugin_A_def plugin_B_def plugin_C_def)

lemma ex_world_fields [simp]:
  "run_log ex_world = []" "audit ex_world = []" "invoked ex_world = []"
  "progress ex_world = []" "reports ex_world = []" "log_file ex_world = NotOpened"
  "existing ex_world = [''/in'', ''/out'', ''/out/R'']"
  by (simp_all add: ex_world_def)

lemma ex_faults [simp]:
  "open_fault ex_env = (\<lambda>f. None)" "generate_report_fault ex_env = None"
  "open_fault ex_env_win = (\<lambda>f. None)" "generate_report_fault ex_env_win = None"
  "open_fault ex_env_denied = (\<lambda>f. None)" "generate_report_fault ex_env_denied = None"
  "generate_report_fault ex_env_nolog = None"
  "open_fault ex_env_nolog =
     (\<lambda>f. Some (Exc FileNotFoundError ''[Errno 2] No such file or directory'' ''Traceback: FileNotFoundError''))"
  by (simp_all add: ex_env_def ex_env_win_def ex_env_denied_def ex_env_nolog_def)

lemma ex_mkdir [simp]:
  "mkdir_fault ex_env = (\<lambda>d. None)"
  "mkdir_fault ex_env_missing =
     (\<lambda>d. Some (Exc FileNotFoundError ''[Errno 2] No such file or directory'' ''Traceback: FileNotFoundError''))"
  "mkdir_fault ex_env_denied =
     (\<lambda>d. Some (Exc PermissionError ''[Errno 13] Permission denied'' ''Traceback: PermissionError''))"
  by (simp_all add: ex_env_def ex_env_missing_def ex_env_denied_def)

lemma ex_construct [simp]:
  "construct_seeker ex_env ''fs'' ''/in'' ex_out = Some (Inr ex_seeker)"
  "construct_seeker ex_env_denied ''fs'' ''/in'' ex_out = Some (Inr ex_seeker)"
  "construct_seeker ex_env_nolog ''fs'' ''/in'' ex_out = Some (Inr ex_seeker)"
  "construct_seeker ex_env ''zip'' ''/in'' ex_out =
     Some (Inl (Exc OSError ''not a zip file'' ''Traceback: not a zip file''))"
  "construct_seeker ex_env ''dmg'' ''/in'' ex_out = None"
  by (simp_all add: construct_seeker_def ex_env_def ex_env_denied_def ex_env_nolog_def)

lemma caught_only_ex_env [simp]: "caught_only ex_env"
  by (simp add: caught_only_def)

lemma ex_methods [simp]:
  "method_fn plugin_A = (\<lambda>fs d sk wrap. Returns)"
  "method_fn plugin_B = (\<lambda>fs d sk wrap. Raises (Exc ValueError ''boom'' ''Traceback: ValueError: boom''))"
  "method_fn plugin_C = (\<lambda>fs d sk wrap. Returns)"
  by (simp_all add: plugin_A_def plugin_B_def plugin_C_def)

lemma ex_raises_only [simp]:
  "raises_only_exceptions e sk out wrap plugin_A"
  "raises_only_exceptions e sk out wrap plugin_B"
  "raises_only_exceptions e sk out wrap plugin_C"
  "raises_only_exceptions e sk out wrap plugin_N"
  "\<not> raises_only_exceptions e sk out wrap plugin_S"
  by (simp_all add: raises_only_exceptions_def plugin_A_def plugin_B_def plugin_C_def
        plugin_N_def plugin_S_def)

lemma ex_invocable [simp]:
  "invocable ex_env ex_seeker ex_out ex_world plugin_A"
  "invocable ex_env ex_seeker ex_out ex_world plugin_B"
  "invocable ex_env ex_seeker ex_out ex_world plugin_C"
  "\<not> invocable ex_env ex_seeker ex_out ex_world plugin_N"
  by (simp_all add: invocable_def folder_ready_def)

lemma ex_platform [simp]:
  "is_platform_windows ex_env = False"
  "run_time_HMS ex_env = ''00:00:00''"
  "run_time_secs ex_env = 0"
  by (simp_all add: ex_env_def)

subsection \<open>Lemmas on the profile and on main\<close>

lemma py_eq_str_iff: "py_eq_str v c = (v = JStr c)"
  by (cases v) auto

lemma py_eq_int_1_iff: "py_eq_int v 1 = (v \<in> {JInt 1, JBool True, JFloat (Finite 1)})"
proof (cases v)
  case (JFloat x)
  then show ?thesis by (cases x) auto
qed auto

lemma main_loads_profile:
  assumes "loads_profile w a f"
  shows "main e h av a w =
     (case select_by_profile h av f of
        Inl ended \<Rightarrow> ended
      | Inr selected_plugins \<Rightarrow>
          (case (input_path a, output_path a, t_opt a) of
             (Some inp, Some outp, Some extracttype) \<Rightarrow>
               (case prepare_paths e h extracttype inp outp of
                  Inl c \<Rightarrow> Crashed c
                | Inr (inp', outp') \<Rightarrow>
                    Dispatched
                      \<lparr>c_plugins = selected_plugins, c_extracttype = extracttype,
                       c_input_path = inp', c_out_params = OutputParameters h outp',
                       c_ratio = 1, c_wrap_text = wrap_text a, c_casedata = [],
                       c_profile_filename = Some f\<rparr>)
           | _ \<Rightarrow> Crashed TypeError))"
  using assms
  by (auto simp: main_def loads_profile_def truthy_def split: sum.splits option.splits prod.splits)

lemma main_dispatch:
  assumes "loads_profile w a f" and "select_by_profile h av f = Inr sel"
    and "input_path a = Some inp" and "output_path a = Some outp" and "t_opt a = Some t"
    and "prepare_paths e h t inp outp = Inr (i', o')"
  shows "main e h av a w =
           Dispatched
             \<lparr>c_plugins = sel, c_extracttype = t, c_input_path = i',
              c_out_params = OutputParameters h o', c_ratio = 1, c_wrap_text = wrap_text a,
              c_casedata = [], c_profile_filename = Some f\<rparr>"
  by (simp add: main_loads_profile [OF assms(1)] assms(2-6))

lemma select_valid:
  assumes "json_load h f = Loaded (JObj kv)"
    and "map_of kv ''leapp'' = Some (JStr ''dleapp'')"
    and "map_of kv ''format_version'' = Some (JInt 1)"
  shows "select_by_profile h av f =
     (case py_set (dict_get_default kv ''plugins'' (JArr [])) of
        Inl c \<Rightarrow> Inl (Crashed c)
      | Inr profile_plugins \<Rightarrow> Inr (filter (\<lambda>p. JStr (name p) \<in> profile_plugins) av))"
  using assms by (simp add: select_by_profile_def dict_get_def dict_get_default_def)

lemma ex_loads_profile [simp]: "loads_profile ex_world_profile ex_args ''/in/p.dlprofile''"
  by (simp add: loads_profile_def validate_args_def ex_args_def ex_world_profile_def
        truthy_def os_path_exists_def ex_world_def)

lemma ex_args_fields [simp]:
  "input_path ex_args = Some ''/in''" "output_path ex_args = Some ''/out''"
  "t_opt ex_args = Some ''fs''" "wrap_text ex_args = True"
  "load_profile ex_args = Some ''/in/p.dlprofile''"
  "create_profile ex_args = None" "artifact_paths ex_args = False"
  by (simp_all add: ex_args_def)

lemma ex_world_profile_existing [simp]:
  "existing ex_world_profile = [''/in'', ''/out'', ''/out/R'', ''/in/p.dlprofile'']"
  by (simp add: ex_world_profile_def)

lemma ex_host_fields [simp]:
  "json_load (ex_host c) f = c"
  "OutputParameters (ex_host c) ''/out'' = ex_out"
  by (simp_all add: ex_host_def ex_out_def posix_join_def)

lemma ex_prepare [simp]:
  "prepare_paths ex_env (ex_host c) ''fs'' ''/in'' ''/out'' = Inr (''/in'', ''/out'')"
  by (simp add: prepare_paths_def ex_host_def ex_env_def)

lemma py_set_names: "py_set (JArr (map JStr names)) = Inr (JStr ` set names)"
  by (simp add: py_set_def list_all_iff)

lemma filter_names:
  "filter (\<lambda>p. JStr (name p) \<in> JStr ` set names) av = filter (\<lambda>p. name p \<in> set names) av"
  by (rule filter_cong) auto

lemma main_no_profile:
  assumes "validate_args w a = None" and "\<not> artifact_paths a" and "\<not> truthy (create_profile a)"
    and "\<not> truthy (load_profile a)"
    and "input_path a = Some inp" and "output_path a = Some outp" and "t_opt a = Some t"
    and "prepare_paths e h t inp outp = Inr (i', o')"
  shows "main e h av a w =
           Dispatched
             \<lparr>c_plugins = av, c_extracttype = t, c_input_path = i',
              c_out_params = OutputParameters h o', c_ratio = 1, c_wrap_text = wrap_text a,
              c_casedata = [], c_profile_filename = None\<rparr>"
  using assms by (simp add: main_def)

lemma ex_win [simp]:
  "ex_seeker_win ''*/a.log'' = [long_prefix @ ''C:/in/a.log'']"
  "is_platform_windows ex_env_win = True"
  "construct_seeker ex_env_win ''fs'' (long_prefix @ ''C:/in'') ex_out = Some (Inr ex_seeker)"
  "caught_only ex_env_win"
  "strip_long_prefix (long_prefix @ s) = s"
  by (simp_all add: ex_seeker_win_def ex_env_win_def ex_env_def construct_seeker_def
        caught_only_def strip_long_prefix_def startswith_def long_prefix_def)

lemma select_by_profile_Inl:
  "select_by_profile h av f = Inl ended \<Longrightarrow> ended \<noteq> Dispatched c"
  by (auto simp: select_by_profile_def split: load_result.splits json.splits if_splits sum.splits)

lemma select_by_profile_Inr:
  assumes "select_by_profile h av f = Inr sel"
  shows "\<exists>kv S. json_load h f = Loaded (JObj kv)
            \<and> dict_get kv ''leapp'' = JStr ''dleapp''
            \<and> dict_get kv ''format_version'' \<in> {JInt 1, JBool True, JFloat (Finite 1)}
            \<and> py_set (dict_get_default kv ''plugins'' (JArr [])) = Inr S
            \<and> sel = filter (\<lambda>p. JStr (name p) \<in> S) av"
  using assms unfolding select_by_profile_def py_eq_str_iff py_eq_int_1_iff
  by (auto split: load_result.splits json.splits if_splits sum.splits)

lemma main_Dispatched:
  assumes "loads_profile w a f" and "main e h av a w = Dispatched c"
  shows "select_by_profile h av f = Inr (c_plugins c)"
proof (cases "select_by_profile h av f")
  case (Inl ended)
  then show ?thesis
    using assms select_by_profile_Inl [OF Inl, of c]
    by (simp add: main_loads_profile [OF assms(1)])
next
  case (Inr sel)
  then show ?thesis
    using assms(2)
    by (auto simp: main_loads_profile [OF assms(1)] split: option.splits sum.splits prod.splits)
qed


section \<open>The claims\<close>

text \<open>
  C7. Empty-match skip. For every plugin none of whose patterns matches, the iteration
  writes the plugin's heading and one zero-match note for each pattern to the audit file
  and nothing else: the parse method is not called, no directory is made, nothing is
  written to the run log (so no failure entry), and the iteration ends the normal way, by
  the progress update.
\<close>

theorem empty_match_skip:
  assumes "\<forall>r\<in>set (search_regexes p). sk r = []"
  shows "run_plugin e sk out wrap p w =
           (FallThrough,
            w\<lparr>audit := audit w @ (''<b>For '' @ name p @ '' parser</b>'')
                 # map (\<lambda>r. ''<ul><li>No file found for regex <i>'' @ r @ ''</i></li></ul>'')
                       (search_regexes p)\<rparr>)
         \<and> invoked (snd (run_plugin e sk out wrap p w)) = invoked w
         \<and> existing (snd (run_plugin e sk out wrap p w)) = existing w
         \<and> run_log (snd (run_plugin e sk out wrap p w)) = run_log w
         \<and> plugin_loop e sk out ratio wrap (p # ps) cs w =
             plugin_loop e sk out ratio wrap ps (cs + 1)
               (SetProgressBar ((cs + 1) * ratio) (snd (run_plugin e sk out wrap p w)))"
proof -
  have none: "files_of sk p = []"
    using assms by (simp add: files_of_def)
  have entries: "concat (map (pattern_entry sk) (search_regexes p)) =
      map (\<lambda>r. ''<ul><li>No file found for regex <i>'' @ r @ ''</i></li></ul>'') (search_regexes p)"
    using assms by (rule no_match_entries)
  have run: "run_plugin e sk out wrap p w = (FallThrough, searched sk p w)"
    using none by (rule run_plugin_empty)
  show ?thesis
    unfolding plugin_loop_step
    by (simp add: run searched_def plugin_audit_def entries)
qed

theorem empty_match_skip_witness:
  "run_plugin ex_env ex_seeker ex_out True plugin_N ex_world =
     (FallThrough,
      ex_world\<lparr>audit := [''<b>For N parser</b>'',
                          ''<ul><li>No file found for regex <i>*/x.db</i></li></ul>'',
                          ''<ul><li>No file found for regex <i>*/y.db</i></li></ul>'']\<rparr>)"
proof -
  have h: "\<forall>r\<in>set (search_regexes plugin_N). ex_seeker r = []"
    by (simp add: search_regexes_def plugin_N_def ex_seeker_def)
  show ?thesis
    using empty_match_skip [OF h, of ex_env ex_out True ex_world 1 "[]" 0]
    by (simp add: search_regexes_def plugin_N_def ex_world_def)
qed




text \<open>
  C2, as the code has it. The matches of a plugin's patterns are accumulated in a list,
  not in a set: a plugin that has a match and whose folder is there or can be made is
  called once, with the concatenation of its patterns' matches in the order declared.
  Nothing is removed: a location is in the argument as many times as the patterns'
  results hold it together, so one matched by two patterns is there twice.
\<close>

theorem files_found_is_concatenation:
  assumes "\<exists>r\<in>set (search_regexes p). sk r \<noteq> []"
    and "folder_ready e w (folder_of e out p)"
  shows "invoked (snd (run_plugin e sk out wrap p w)) =
           invoked w @
           [\<lparr>i_name = name p, i_files_found = concat (map sk (search_regexes p)),
             i_category_folder = path_join e (report_folder_base out) (category p),
             i_wrap_text = wrap\<rparr>]
       \<and> fst (run_plugin e sk out wrap p w) =
           (case method_fn p (concat (map sk (search_regexes p)))
                   (path_join e (report_folder_base out) (category p)) sk wrap of
              Raises ex \<Rightarrow> if is_Exception (cls ex) then Continue else Propagate ex
            | Returns \<Rightarrow> FallThrough)
       \<and> count_list (concat (map sk (search_regexes p))) f =
           sum_list (map (\<lambda>r. count_list (sk r) f) (search_regexes p))"
proof -
  have files: "files_of sk p \<noteq> []"
    using assms(1) by (simp add: has_match_iff)
  obtain w' where run: "run_plugin e sk out wrap p w =
        call_method p (files_of sk p) (folder_of e out p) sk wrap w'"
    and inv: "invoked w' = invoked w"
    using run_plugin_invoke [OF files assms(2)] by blast
  have "count_list (concat (map sk (search_regexes p))) f =
           sum_list (map (\<lambda>r. count_list (sk r) f) (search_regexes p))"
    by (simp add: count_list_concat comp_def)
  then show ?thesis
    by (simp add: run inv call_method_flow files_of_def folder_of_def)
qed

theorem files_found_is_concatenation_witness:
  "invoked (snd (run_plugin ex_env ex_seeker ex_out True plugin_B ex_world)) =
     [\<lparr>i_name = ''B'', i_files_found = [''/in/a.log'', ''/in/a.log'', ''/in/b.log''],
       i_category_folder = ''/out/R/Logs'', i_wrap_text = True\<rparr>]
   \<and> count_list (concat (map ex_seeker (search_regexes plugin_B))) ''/in/a.log'' = 2"
proof -
  have h1: "\<exists>r\<in>set (search_regexes plugin_B). ex_seeker r \<noteq> []"
    by simp
  have h2: "folder_ready ex_env ex_world (folder_of ex_env ex_out plugin_B)"
    by (simp add: folder_ready_def)
  show ?thesis
    using files_found_is_concatenation [OF h1 h2, of True "''/in/a.log''"]
    by simp
qed

text \<open>
  C2 as stated fails: both patterns of the plugin B match /in/a.log, and the parse method
  is called with that location twice.
\<close>

theorem match_deduplication_counterexample:
  "search_regexes plugin_B = [''*/a.log'', ''*/*.log'']
   \<and> ex_seeker ''*/a.log'' = [''/in/a.log'']
   \<and> ex_seeker ''*/*.log'' = [''/in/a.log'', ''/in/b.log'']
   \<and> map i_files_found (invoked (snd (run_plugin ex_env ex_seeker ex_out True plugin_B ex_world))) =
       [[''/in/a.log'', ''/in/a.log'', ''/in/b.log'']]
   \<and> \<not> distinct [''/in/a.log'', ''/in/a.log'', ''/in/b.log'']"
  by (simp add: run_defs ex_defs)

text \<open>
  C3, as the code has it. For a plugin that has a match and whose category folder is not
  there: when \<^verbatim>\<open>os.mkdir\<close> raises FileExistsError or FileNotFoundError, the dispatcher
  logs the plugin's name, the path and the error, does not call the parse method, and
  goes on with the next plugin. (The code handles these two classes and no other.)
\<close>

theorem folder_failure_skips_plugin:
  assumes "\<exists>r\<in>set (search_regexes p). sk r \<noteq> []"
    and "folder_of e out p \<notin> set (existing w)"
    and "mkdir_fault e (folder_of e out p) = Some ex"
    and "cls ex = FileExistsError \<or> cls ex = FileNotFoundError"
  shows "fst (run_plugin e sk out wrap p w) = Continue
       \<and> run_log (snd (run_plugin e sk out wrap p w)) =
           run_log w @
           [[], name p @ '' ['' @ module_name_str p @ ''] artifact started'',
            ''Error creating '' @ name p @ '' report directory at path '' @ folder_of e out p,
            ''Error was '' @ str_of ex]
       \<and> invoked (snd (run_plugin e sk out wrap p w)) = invoked w
       \<and> existing (snd (run_plugin e sk out wrap p w)) = existing w
       \<and> plugin_loop e sk out ratio wrap (p # ps) cs w =
           plugin_loop e sk out ratio wrap ps cs (snd (run_plugin e sk out wrap p w))"
proof -
  have files: "files_of sk p \<noteq> []"
    using assms(1) by (simp add: has_match_iff)
  have run: "run_plugin e sk out wrap p w =
      (Continue,
       logfunc (''Error was '' @ str_of ex)
         (logfunc (''Error creating '' @ name p @ '' report directory at path ''
                   @ folder_of e out p) (started sk p w)))"
    using files assms(2,3,4) by (simp add: run_plugin_cases)
  show ?thesis
    unfolding plugin_loop_step by (simp add: run)
qed

theorem folder_failure_skips_plugin_witness:
  "fst (run_plugin ex_env_missing ex_seeker ex_out True plugin_A ex_world) = Continue
   \<and> run_log (snd (run_plugin ex_env_missing ex_seeker ex_out True plugin_A ex_world)) =
       [[], ''A [modA] artifact started'',
        ''Error creating A report directory at path /out/R/Logs'',
        ''Error was [Errno 2] No such file or directory'']
   \<and> invoked (snd (run_plugin ex_env_missing ex_seeker ex_out True plugin_A ex_world)) = []"
proof -
  have h1: "\<exists>r\<in>set (search_regexes plugin_A). ex_seeker r \<noteq> []"
    by simp
  have h2: "folder_of ex_env_missing ex_out plugin_A \<notin> set (existing ex_world)"
    by (simp add: folder_of_def)
  have h3: "mkdir_fault ex_env_missing (folder_of ex_env_missing ex_out plugin_A) =
      Some (Exc FileNotFoundError ''[Errno 2] No such file or directory'' ''Traceback: FileNotFoundError'')"
    by simp
  have h4: "cls (Exc FileNotFoundError ''[Errno 2] No such file or directory'' ''Traceback: FileNotFoundError'') = FileExistsError
      \<or> cls (Exc FileNotFoundError ''[Errno 2] No such file or directory'' ''Traceback: FileNotFoundError'') = FileNotFoundError"
    by simp
  show ?thesis
    using folder_failure_skips_plugin [OF h1 h2 h3 h4, of True 1 "[]" 0]
    by (simp add: folder_of_def)
qed

text \<open>
  C3 as stated fails: with permission denied, a reason other than the folder already
  existing, the exception leaves the loop. The pass does not return, the plugin C that
  follows is never searched, and no report is made.
\<close>

theorem folder_failure_counterexample:
  "fst (crunch_artifacts ex_env_denied [plugin_A, plugin_C] ''fs'' ''/in'' ex_out 1 True [] None ex_world) =
     Raised (Exc PermissionError ''[Errno 13] Permission denied'' ''Traceback: PermissionError'')
   \<and> audit (snd (crunch_artifacts ex_env_denied [plugin_A, plugin_C] ''fs'' ''/in'' ex_out 1 True [] None ex_world)) =
       [''Extraction/Path selected: /in<br><br>'', ''<b>For A parser</b>'',
        ''<ul><li>1 file for regex <i>*/a.log</i> located at:'',
        ''<ul><li>/in/a.log</li></ul>'', ''</li></ul>'']
   \<and> reports (snd (crunch_artifacts ex_env_denied [plugin_A, plugin_C] ''fs'' ''/in'' ex_out 1 True [] None ex_world)) = []"
  by (simp add: run_defs ex_defs)







text \<open>
  C9 fails on the code: the two \<^verbatim>\<open>continue\<close> statements (lines 288 and 295) jump over the
  progress update of line 299. Of three plugins the second raises: the pass returns
  \<^verbatim>\<open>True\<close>, the progress bar was set to 1 and to 2, never to 3.
\<close>

theorem progress_skips_failed_plugin:
  "fst (crunch_artifacts ex_env [plugin_A, plugin_B, plugin_C] ''fs'' ''/in'' ex_out 1 True [] None ex_world)
     = Returned True
   \<and> progress (snd (crunch_artifacts ex_env [plugin_A, plugin_B, plugin_C] ''fs'' ''/in'' ex_out 1 True [] None ex_world))
     = [1, 2]
   \<and> length [plugin_A, plugin_B, plugin_C] = 3"
  by (simp add: run_defs ex_defs)

text \<open>
  C4, as the code has it. A profile file ends \<^verbatim>\<open>main\<close> with the profile refused (a
  message printed, then \<^verbatim>\<open>return\<close>), before the dispatch and with no plugin list
  applied, when \<^verbatim>\<open>json.load\<close> raises a JSONDecodeError for it, when it holds a value that
  is no object, and when it holds an object whose \<^verbatim>\<open>leapp\<close> is not the string dleapp or
  whose \<^verbatim>\<open>format_version\<close> does not compare equal to 1; the values that compare equal to
  1 are the integer 1, the float 1.0 and the boolean true. A file that cannot be opened
  or read as UTF-8 raises another exception, which \<^verbatim>\<open>main\<close> does not handle: the run
  ends with it, before the dispatch as well. The dispatch pass is called only for an
  object with that tag and such a version, and then with the whole filtered list. A
  profile path that does not exist ends \<^verbatim>\<open>main\<close> in yet another way, by
  \<^verbatim>\<open>parser.error\<close>.
\<close>

theorem profile_fails_closed:
  "(loads_profile w a f \<longrightarrow> json_load h f = JSONDecodeError m \<longrightarrow>
      main e h av a w = ProfileInvalid (''File was not a valid profile file: '' @ m))
   \<and> (loads_profile w a f \<longrightarrow> json_load h f = ReadError x \<longrightarrow>
      main e h av a w = Crashed x)
   \<and> (loads_profile w a f \<longrightarrow> json_load h f = Loaded v \<longrightarrow> (\<forall>items. v \<noteq> JObj items) \<longrightarrow>
      main e h av a w = ProfileInvalid ''File was not a valid profile file: invalid format'')
   \<and> (loads_profile w a f \<longrightarrow> json_load h f = Loaded (JObj kv) \<longrightarrow>
      (dict_get kv ''leapp'' \<noteq> JStr ''dleapp''
       \<or> dict_get kv ''format_version'' \<notin> {JInt 1, JBool True, JFloat (Finite 1)}) \<longrightarrow>
      main e h av a w =
        ProfileInvalid ''File was not a valid profile file: incorrect LEAPP or version'')
   \<and> (loads_profile w a f \<longrightarrow> main e h av a w = Dispatched c \<longrightarrow>
      (\<exists>items S. json_load h f = Loaded (JObj items)
          \<and> dict_get items ''leapp'' = JStr ''dleapp''
          \<and> dict_get items ''format_version'' \<in> {JInt 1, JBool True, JFloat (Finite 1)}
          \<and> py_set (dict_get_default items ''plugins'' (JArr [])) = Inr S
          \<and> c_plugins c = filter (\<lambda>p. JStr (name p) \<in> S) av))
   \<and> (\<not> artifact_paths a \<longrightarrow> \<not> truthy (create_profile a) \<longrightarrow>
      input_path a = Some inp \<longrightarrow> output_path a = Some outp \<longrightarrow> t_opt a = Some t \<longrightarrow>
      os_path_exists w inp \<longrightarrow> os_path_exists w outp \<longrightarrow>
      load_profile a = Some f \<longrightarrow> f \<noteq> [] \<longrightarrow> \<not> os_path_exists w f \<longrightarrow>
      main e h av a w = UsageError ''DLEAPP Profile file not found! Run the program again.'')"
proof (intro conjI impI)
  assume "loads_profile w a f" and "json_load h f = JSONDecodeError m"
  then show "main e h av a w = ProfileInvalid (''File was not a valid profile file: '' @ m)"
    by (simp add: main_loads_profile select_by_profile_def)
next
  assume "loads_profile w a f" and "json_load h f = ReadError x"
  then show "main e h av a w = Crashed x"
    by (simp add: main_loads_profile select_by_profile_def)
next
  assume lp: "loads_profile w a f" and ld: "json_load h f = Loaded v"
    and no: "\<forall>items. v \<noteq> JObj items"
  have "select_by_profile h av f =
      Inl (ProfileInvalid ''File was not a valid profile file: invalid format'')"
    using ld no by (cases v) (simp_all add: select_by_profile_def)
  then show "main e h av a w = ProfileInvalid ''File was not a valid profile file: invalid format''"
    by (simp add: main_loads_profile [OF lp])
next
  assume lp: "loads_profile w a f" and ld: "json_load h f = Loaded (JObj kv)"
    and bad: "dict_get kv ''leapp'' \<noteq> JStr ''dleapp''
       \<or> dict_get kv ''format_version'' \<notin> {JInt 1, JBool True, JFloat (Finite 1)}"
  have "\<not> py_eq_str (dict_get kv ''leapp'') ''dleapp''
        \<or> \<not> py_eq_int (dict_get kv ''format_version'') 1"
    using bad unfolding py_eq_str_iff py_eq_int_1_iff by simp
  then have "select_by_profile h av f =
      Inl (ProfileInvalid ''File was not a valid profile file: incorrect LEAPP or version'')"
    using ld by (auto simp: select_by_profile_def)
  then show "main e h av a w =
        ProfileInvalid ''File was not a valid profile file: incorrect LEAPP or version''"
    by (simp add: main_loads_profile [OF lp])
next
  assume lp: "loads_profile w a f" and d: "main e h av a w = Dispatched c"
  have "select_by_profile h av f = Inr (c_plugins c)"
    using lp d by (rule main_Dispatched)
  then show "\<exists>items S. json_load h f = Loaded (JObj items)
          \<and> dict_get items ''leapp'' = JStr ''dleapp''
          \<and> dict_get items ''format_version'' \<in> {JInt 1, JBool True, JFloat (Finite 1)}
          \<and> py_set (dict_get_default items ''plugins'' (JArr [])) = Inr S
          \<and> c_plugins c = filter (\<lambda>p. JStr (name p) \<in> S) av"
    by (rule select_by_profile_Inr)
next
  assume "\<not> artifact_paths a" "\<not> truthy (create_profile a)"
    "input_path a = Some inp" "output_path a = Some outp" "t_opt a = Some t"
    "os_path_exists w inp" "os_path_exists w outp"
    "load_profile a = Some f" "f \<noteq> []" "\<not> os_path_exists w f"
  then show "main e h av a w = UsageError ''DLEAPP Profile file not found! Run the program again.''"
    by (simp add: main_def validate_args_def)
qed

theorem profile_fails_closed_witness:
  "main ex_env (ex_host (JSONDecodeError ''Expecting value: line 1 column 1 (char 0)'')) registry
     ex_args ex_world_profile =
     ProfileInvalid ''File was not a valid profile file: Expecting value: line 1 column 1 (char 0)''
   \<and> main ex_env (ex_host (ReadError UnicodeDecodeError)) registry ex_args ex_world_profile =
     Crashed UnicodeDecodeError
   \<and> main ex_env (ex_host (Loaded (JArr [JStr ''A'']))) registry ex_args ex_world_profile =
     ProfileInvalid ''File was not a valid profile file: invalid format''
   \<and> main ex_env (ex_host (Loaded (JObj [(''leapp'', JStr ''dleapp''), (''format_version'', JInt 2),
                                          (''plugins'', JArr [JStr ''A''])]))) registry
       ex_args ex_world_profile =
     ProfileInvalid ''File was not a valid profile file: incorrect LEAPP or version''
   \<and> main ex_env (ex_host (Loaded (JObj []))) registry ex_args ex_world =
     UsageError ''DLEAPP Profile file not found! Run the program again.''"
  using profile_fails_closed [where w = ex_world_profile and a = ex_args and f = "''/in/p.dlprofile''"
      and h = "ex_host (JSONDecodeError ''Expecting value: line 1 column 1 (char 0)'')"
      and m = "''Expecting value: line 1 column 1 (char 0)''" and e = ex_env and av = registry]
    profile_fails_closed [where w = ex_world_profile and a = ex_args and f = "''/in/p.dlprofile''"
      and h = "ex_host (ReadError UnicodeDecodeError)" and x = UnicodeDecodeError
      and e = ex_env and av = registry]
    profile_fails_closed [where w = ex_world_profile and a = ex_args and f = "''/in/p.dlprofile''"
      and h = "ex_host (Loaded (JArr [JStr ''A'']))" and v = "JArr [JStr ''A'']"
      and e = ex_env and av = registry]
    profile_fails_closed [where w = ex_world_profile and a = ex_args and f = "''/in/p.dlprofile''"
      and h = "ex_host (Loaded (JObj [(''leapp'', JStr ''dleapp''), (''format_version'', JInt 2),
                                          (''plugins'', JArr [JStr ''A''])]))"
      and kv = "[(''leapp'', JStr ''dleapp''), (''format_version'', JInt 2),
                                          (''plugins'', JArr [JStr ''A''])]"
      and e = ex_env and av = registry]
    profile_fails_closed [where w = ex_world and a = ex_args and f = "''/in/p.dlprofile''"
      and h = "ex_host (Loaded (JObj []))" and inp = "''/in''" and outp = "''/out''"
      and t = "''fs''" and e = ex_env and av = registry]
  by (simp add: dict_get_def dict_get_default_def os_path_exists_def truthy_def)

text \<open>
  C4 as stated fails: a profile whose format version is the boolean true, which is not
  1, is accepted and its plugin list is applied, since \<^verbatim>\<open>True != 1\<close> is false in Python.
\<close>

theorem profile_version_counterexample:
  "dict_get [(''leapp'', JStr ''dleapp''), (''format_version'', JBool True),
             (''plugins'', JArr [JStr ''A''])] ''format_version'' = JBool True
   \<and> JBool True \<noteq> JInt 1
   \<and> main ex_env
       (ex_host (Loaded (JObj [(''leapp'', JStr ''dleapp''), (''format_version'', JBool True),
                               (''plugins'', JArr [JStr ''A''])])))
       registry ex_args ex_world_profile =
     Dispatched
       \<lparr>c_plugins = [plugin_A], c_extracttype = ''fs'', c_input_path = ''/in'',
        c_out_params = ex_out, c_ratio = 1, c_wrap_text = True, c_casedata = [],
        c_profile_filename = Some ''/in/p.dlprofile''\<rparr>"
  by (simp add: main_loads_profile [OF ex_loads_profile] select_by_profile_def dict_get_def
        dict_get_default_def py_set_def registry_def)

text \<open>
  C5. Profile selection. With a valid profile (an object with \<^verbatim>\<open>leapp\<close> the string dleapp,
  \<^verbatim>\<open>format_version\<close> 1 and \<^verbatim>\<open>plugins\<close> a list of names) the plugins selected are exactly
  the registry's plugins whose name is among the profile's names, in the registry's
  order; a name of the profile that no plugin of the registry has selects nothing and is
  no error: the dispatch pass is called with the plugins selected. With no profile the
  pass is called with the whole registry. (Both for arguments that pass the checks and
  paths that line 198 can index.)
\<close>

theorem profile_selection:
  "(loads_profile w a f \<longrightarrow> json_load h f = Loaded (JObj kv) \<longrightarrow>
    map_of kv ''leapp'' = Some (JStr ''dleapp'') \<longrightarrow>
    map_of kv ''format_version'' = Some (JInt 1) \<longrightarrow>
    map_of kv ''plugins'' = Some (JArr (map JStr names)) \<longrightarrow>
    input_path a = Some inp \<longrightarrow> output_path a = Some outp \<longrightarrow> t_opt a = Some t \<longrightarrow>
    prepare_paths e h t inp outp = Inr (i', o') \<longrightarrow>
      select_by_profile h av f = Inr (filter (\<lambda>p. name p \<in> set names) av)
      \<and> main e h av a w =
          Dispatched
            \<lparr>c_plugins = filter (\<lambda>p. name p \<in> set names) av, c_extracttype = t,
             c_input_path = i', c_out_params = OutputParameters h o', c_ratio = 1,
             c_wrap_text = wrap_text a, c_casedata = [], c_profile_filename = Some f\<rparr>
      \<and> set (map name (filter (\<lambda>p. name p \<in> set names) av)) = set names \<inter> set (map name av))
   \<and> (validate_args w a = None \<longrightarrow> \<not> artifact_paths a \<longrightarrow> \<not> truthy (create_profile a) \<longrightarrow>
      \<not> truthy (load_profile a) \<longrightarrow>
      input_path a = Some inp \<longrightarrow> output_path a = Some outp \<longrightarrow> t_opt a = Some t \<longrightarrow>
      prepare_paths e h t inp outp = Inr (i', o') \<longrightarrow>
        main e h av a w =
          Dispatched
            \<lparr>c_plugins = av, c_extracttype = t, c_input_path = i',
             c_out_params = OutputParameters h o', c_ratio = 1, c_wrap_text = wrap_text a,
             c_casedata = [], c_profile_filename = None\<rparr>)"
proof (intro conjI impI)
  assume lp: "loads_profile w a f" and ld: "json_load h f = Loaded (JObj kv)"
    and tag: "map_of kv ''leapp'' = Some (JStr ''dleapp'')"
    and ver: "map_of kv ''format_version'' = Some (JInt 1)"
    and pl: "map_of kv ''plugins'' = Some (JArr (map JStr names))"
    and args: "input_path a = Some inp" "output_path a = Some outp" "t_opt a = Some t"
    and paths: "prepare_paths e h t inp outp = Inr (i', o')"
  show sel: "select_by_profile h av f = Inr (filter (\<lambda>p. name p \<in> set names) av)"
    by (simp add: select_valid [OF ld tag ver] dict_get_default_def pl py_set_names filter_names)
  show "main e h av a w =
          Dispatched
            \<lparr>c_plugins = filter (\<lambda>p. name p \<in> set names) av, c_extracttype = t,
             c_input_path = i', c_out_params = OutputParameters h o', c_ratio = 1,
             c_wrap_text = wrap_text a, c_casedata = [], c_profile_filename = Some f\<rparr>"
    using lp sel args paths by (rule main_dispatch)
  show "set (map name (filter (\<lambda>p. name p \<in> set names) av)) = set names \<inter> set (map name av)"
    by auto
next
  assume "validate_args w a = None" "\<not> artifact_paths a" "\<not> truthy (create_profile a)"
    "\<not> truthy (load_profile a)"
    "input_path a = Some inp" "output_path a = Some outp" "t_opt a = Some t"
    "prepare_paths e h t inp outp = Inr (i', o')"
  then show "main e h av a w =
          Dispatched
            \<lparr>c_plugins = av, c_extracttype = t, c_input_path = i',
             c_out_params = OutputParameters h o', c_ratio = 1, c_wrap_text = wrap_text a,
             c_casedata = [], c_profile_filename = None\<rparr>"
    by (rule main_no_profile)
qed

theorem profile_selection_witness:
  "main ex_env
     (ex_host (Loaded (JObj [(''leapp'', JStr ''dleapp''), (''format_version'', JInt 1),
                             (''plugins'', JArr (map JStr [''C'', ''Gone'', ''A'']))])))
     registry ex_args ex_world_profile =
   Dispatched
     \<lparr>c_plugins = [plugin_A, plugin_C], c_extracttype = ''fs'', c_input_path = ''/in'',
      c_out_params = ex_out, c_ratio = 1, c_wrap_text = True, c_casedata = [],
      c_profile_filename = Some ''/in/p.dlprofile''\<rparr>
   \<and> main ex_env (ex_host (Loaded JNull)) registry (ex_args\<lparr>load_profile := None\<rparr>) ex_world =
   Dispatched
     \<lparr>c_plugins = registry, c_extracttype = ''fs'', c_input_path = ''/in'',
      c_out_params = ex_out, c_ratio = 1, c_wrap_text = True, c_casedata = [],
      c_profile_filename = None\<rparr>"
proof -
  have v: "validate_args ex_world (ex_args\<lparr>load_profile := None\<rparr>) = None"
    by (simp add: validate_args_def ex_args_def truthy_def os_path_exists_def)
  show ?thesis
    using profile_selection [where w = ex_world_profile and a = ex_args and f = "''/in/p.dlprofile''"
        and h = "ex_host (Loaded (JObj [(''leapp'', JStr ''dleapp''), (''format_version'', JInt 1),
                             (''plugins'', JArr (map JStr [''C'', ''Gone'', ''A'']))]))"
        and kv = "[(''leapp'', JStr ''dleapp''), (''format_version'', JInt 1),
                             (''plugins'', JArr (map JStr [''C'', ''Gone'', ''A'']))]"
        and names = "[''C'', ''Gone'', ''A'']" and inp = "''/in''" and outp = "''/out''"
        and t = "''fs''" and e = ex_env and i' = "''/in''" and o' = "''/out''" and av = registry]
      profile_selection [where w = ex_world and a = "ex_args\<lparr>load_profile := None\<rparr>"
        and h = "ex_host (Loaded JNull)" and inp = "''/in''" and outp = "''/out''"
        and t = "''fs''" and e = ex_env and i' = "''/in''" and o' = "''/out''" and av = registry] v
    by (simp add: truthy_def registry_def)
qed

text \<open>
  C10. A profile that is an object with the right \<^verbatim>\<open>leapp\<close> and \<^verbatim>\<open>format_version\<close> and no
  \<^verbatim>\<open>plugins\<close> key is accepted: the plugins selected are none, and the dispatch pass is
  called with the empty list, not with the registry. That pass calls no parse method.
\<close>

theorem profile_without_plugins:
  "(loads_profile w a f \<longrightarrow> json_load h f = Loaded (JObj kv) \<longrightarrow>
    map_of kv ''leapp'' = Some (JStr ''dleapp'') \<longrightarrow>
    map_of kv ''format_version'' = Some (JInt 1) \<longrightarrow>
    map_of kv ''plugins'' = None \<longrightarrow>
    input_path a = Some inp \<longrightarrow> output_path a = Some outp \<longrightarrow> t_opt a = Some t \<longrightarrow>
    prepare_paths e h t inp outp = Inr (i', o') \<longrightarrow>
      select_by_profile h av f = Inr []
      \<and> main e h av a w =
          Dispatched
            \<lparr>c_plugins = [], c_extracttype = t, c_input_path = i',
             c_out_params = OutputParameters h o', c_ratio = 1, c_wrap_text = wrap_text a,
             c_casedata = [], c_profile_filename = Some f\<rparr>)
   \<and> invoked (snd (crunch_artifacts e [] t i' out ratio wrap cd pf w)) = invoked w"
proof (intro conjI impI)
  assume lp: "loads_profile w a f" and ld: "json_load h f = Loaded (JObj kv)"
    and tag: "map_of kv ''leapp'' = Some (JStr ''dleapp'')"
    and ver: "map_of kv ''format_version'' = Some (JInt 1)"
    and pl: "map_of kv ''plugins'' = None"
    and args: "input_path a = Some inp" "output_path a = Some outp" "t_opt a = Some t"
    and paths: "prepare_paths e h t inp outp = Inr (i', o')"
  show sel: "select_by_profile h av f = Inr []"
    by (simp add: select_valid [OF ld tag ver] dict_get_default_def pl py_set_def)
  show "main e h av a w =
          Dispatched
            \<lparr>c_plugins = [], c_extracttype = t, c_input_path = i',
             c_out_params = OutputParameters h o', c_ratio = 1, c_wrap_text = wrap_text a,
             c_casedata = [], c_profile_filename = Some f\<rparr>"
    using lp sel args paths by (rule main_dispatch)
next
  show "invoked (snd (crunch_artifacts e [] t i' out ratio wrap cd pf w)) = invoked w"
  proof (cases "construct_seeker e t i' out")
    case None
    then show ?thesis by (simp add: crunch_artifacts_def Let_def)
  next
    case (Some r)
    show ?thesis
    proof (cases r)
      case (Inl ex)
      then show ?thesis using Some by (simp add: crunch_artifacts_def Let_def)
    next
      case (Inr sk)
      then show ?thesis using Some by (simp add: crunch_with_seeker split: option.splits)
    qed
  qed
qed

theorem profile_without_plugins_witness:
  "main ex_env
     (ex_host (Loaded (JObj [(''leapp'', JStr ''dleapp''), (''format_version'', JInt 1)])))
     registry ex_args ex_world_profile =
   Dispatched
     \<lparr>c_plugins = [], c_extracttype = ''fs'', c_input_path = ''/in'',
      c_out_params = ex_out, c_ratio = 1, c_wrap_text = True, c_casedata = [],
      c_profile_filename = Some ''/in/p.dlprofile''\<rparr>"
  using profile_without_plugins [where w = ex_world_profile and a = ex_args and f = "''/in/p.dlprofile''"
      and h = "ex_host (Loaded (JObj [(''leapp'', JStr ''dleapp''), (''format_version'', JInt 1)]))"
      and kv = "[(''leapp'', JStr ''dleapp''), (''format_version'', JInt 1)]"
      and inp = "''/in''" and outp = "''/out''" and t = "''fs''" and e = ex_env
      and i' = "''/in''" and o' = "''/out''" and av = registry]
  by simp

end
